(* ===== verification/Prelude.thy ===== *)
theory Prelude
  imports Main "HOL-Library.AList"
begin

text \<open>
  Shared vocabulary of the development: the identifier types of the database rows,
  the JSON values a request body carries, the named collections that the component
  theories fill, and generic lemmas on maps and on the row lookup that models a
  Django reverse one-to-one accessor (\<open>request.user.benefactor\<close>).
\<close>

section \<open>Named collections\<close>

named_theorems handler_defs "definitions of the request handlers, unfolded together"
named_theorems wf_simps "facts that rewrite the database well-formedness predicate"

section \<open>Identifiers and JSON values\<close>

text \<open>
  Every Django model row is identified by its auto-incremented integer primary key.
  The four tables get their own synonyms so that signatures say which table an
  identifier indexes.
\<close>

type_synonym uid = nat
type_synonym bid = nat
type_synonym cid = nat
type_synonym tid = nat

text \<open>
  A value of a parsed request body (\<open>request.data\<close>) or of a serializer's validated
  data. Python compares such values with \<open>==\<close>; the datatype's equality is that
  comparison (a string never equals an integer or \<open>None\<close>).
\<close>

datatype jval = JStr string | JInt int | JBool bool | JNull

type_synonym json_obj = "string \<rightharpoonup> jval"

text \<open>Query parameters (\<open>request.GET\<close>): a \<open>QueryDict\<close> whose \<open>get\<close> gives a string.\<close>

type_synonym query = "string \<rightharpoonup> string"

section \<open>Rows found by a field: the reverse one-to-one accessor\<close>

text \<open>
  \<open>table_find m n P\<close> scans the primary keys below the table's counter \<open>n\<close> in
  ascending order and returns the first key whose row satisfies \<open>P\<close>; it is the
  executable form of \<open>Model.objects.filter(P).first()\<close>, and of the reverse
  accessor \<open>user.benefactor\<close> when at most one row satisfies \<open>P\<close>.
\<close>

definition table_find :: "(nat \<rightharpoonup> 'a) \<Rightarrow> nat \<Rightarrow> ('a \<Rightarrow> bool) \<Rightarrow> nat option" where
  "table_find m n P = find (\<lambda>i. case m i of Some x \<Rightarrow> P x | None \<Rightarrow> False) [0..<n]"

section \<open>Maps with an allocation counter\<close>

text \<open>
  A table is a map from keys to rows together with the next key to allocate; the
  allocated keys all lie below the counter.
\<close>

definition keys_below :: "(nat \<rightharpoonup> 'a) \<Rightarrow> nat \<Rightarrow> bool" where
  "keys_below m n \<longleftrightarrow> dom m \<subseteq> {..<n}"

section \<open>Exceptions as sums\<close>

text \<open>Sequencing of Python statements that may raise: an exception (\<open>Inl\<close>) stops the
  rest of the block.\<close>

definition sum_bind :: "'e + 'a \<Rightarrow> ('a \<Rightarrow> 'e + 'b) \<Rightarrow> 'e + 'b" where
  "sum_bind x f = (case x of Inl e \<Rightarrow> Inl e | Inr a \<Rightarrow> f a)"

text \<open>\<open>d[k]\<close> on a dictionary: the value, or \<open>KeyError(k)\<close>.\<close>

definition getitem :: "(string \<Rightarrow> 'e) \<Rightarrow> (string \<rightharpoonup> 'v) \<Rightarrow> string \<Rightarrow> 'e + 'v" where
  "getitem err m k = (case m k of None \<Rightarrow> Inl (err k) | Some v \<Rightarrow> Inr v)"

section \<open>Lemmas on exceptions as sums\<close>

lemma sum_bind_simps [simp]:
  "sum_bind (Inl e) f = Inl e"
  "sum_bind (Inr a) f = f a"
  by (simp_all add: sum_bind_def)

lemma sum_bind_eq_Inr:
  "sum_bind x f = Inr b \<longleftrightarrow> (\<exists>a. x = Inr a \<and> f a = Inr b)"
  by (cases x) auto

lemma getitem_simps [simp]:
  "m k = None \<Longrightarrow> getitem err m k = Inl (err k)"
  "m k = Some v \<Longrightarrow> getitem err m k = Inr v"
  by (simp_all add: getitem_def)

section \<open>Lemmas on the row lookup\<close>

lemma table_find_SomeD:
  assumes "table_find m n P = Some i"
  shows "i < n \<and> (\<exists>x. m i = Some x \<and> P x)"
  using assms by (auto simp: table_find_def find_Some_iff split: option.splits)

lemma table_find_None_iff:
  "table_find m n P = None \<longleftrightarrow> (\<forall>i<n. \<forall>x. m i = Some x \<longrightarrow> \<not> P x)"
  by (auto simp: table_find_def find_None_iff split: option.splits)

lemma table_find_unique:
  assumes "m i = Some x" and "P x" and "i < n"
    and "\<And>j y. m j = Some y \<Longrightarrow> P y \<Longrightarrow> j = i"
  shows "table_find m n P = Some i"
proof -
  have "i \<in> set [0..<n]" using assms(3) by simp
  then have "find (\<lambda>i. case m i of Some x \<Rightarrow> P x | None \<Rightarrow> False) [0..<n] \<noteq> None"
    using assms(1,2) by (auto simp: find_None_iff)
  then obtain k where k: "table_find m n P = Some k"
    by (auto simp: table_find_def)
  then obtain y where "m k = Some y" "P y" by (auto dest: table_find_SomeD)
  with assms(4) k show ?thesis by auto
qed

lemma table_find_exists:
  "(\<exists>i. table_find m n P = Some i) \<longleftrightarrow> (\<exists>i<n. \<exists>x. m i = Some x \<and> P x)"
  by (metis not_None_eq table_find_None_iff table_find_SomeD)

text \<open>A row stored at a key at or above the counter is invisible to the scan.\<close>

lemma table_find_upd_high:
  "n \<le> k \<Longrightarrow> table_find (m(k \<mapsto> v)) n P = table_find m n P"
  unfolding table_find_def by (rule find_cong) auto

text \<open>Overwriting a row with one that agrees on \<open>P\<close> does not change the scan.\<close>

lemma table_find_upd_same:
  "m k = Some x \<Longrightarrow> P v = P x \<Longrightarrow> table_find (m(k \<mapsto> v)) n P = table_find m n P"
  unfolding table_find_def by (rule find_cong) auto

section \<open>Lemmas on tables with a counter\<close>

lemma keys_below_fresh [simp]: "keys_below m n \<Longrightarrow> m n = None"
  by (auto simp: keys_below_def)

lemma keys_below_insert [simp, intro]:
  "keys_below m n \<Longrightarrow> keys_below (m(n \<mapsto> v)) (Suc n)"
  by (auto simp: keys_below_def)

lemma keys_below_update [simp, intro]:
  "keys_below m n \<Longrightarrow> m k = Some x \<Longrightarrow> keys_below (m(k \<mapsto> v)) n"
  by (auto simp: keys_below_def)

lemma keys_below_Some: "keys_below m n \<Longrightarrow> m k = Some x \<Longrightarrow> k < n"
  by (auto simp: keys_below_def)

end
