(* ===== verification/Models.thy ===== *)
theory Models
  imports Prelude
begin

text \<open>
  The persistent state of the backend and the HTTP vocabulary the views use.
  The Django models (\<open>charities/models.py\<close>, \<open>accounts/models.py\<close>) and the
  permission classes (\<open>accounts/permissions.py\<close>) are not among the sources; they
  are modelled from the specification (sections 3 and 6): a task with a charity, a
  four-valued state and an optional assigned benefactor; one benefactor and one
  charity profile at most per user; \<open>IsBenefactor\<close> and \<open>IsCharityOwner\<close> granted
  by the existence of the profile. The user fields are those
  \<open>accounts/serializers.py\<close> names.
\<close>

section \<open>Rows\<close>

text \<open>\<open>Task.TaskStatus\<close>, the four states of a task.\<close>

datatype task_status = PENDING | WAITING | ASSIGNED | DONE

record task =
  task_charity :: cid
  state :: task_status
  assigned_benefactor :: "bid option"
  task_fields :: json_obj

record benefactor =
  benefactor_user :: uid
  benefactor_fields :: json_obj

record charity =
  charity_user :: uid
  charity_fields :: json_obj

record user =
  username :: jval
  password :: string
  phone :: jval
  address :: jval
  gender :: jval
  age :: jval
  description :: jval
  first_name :: jval
  last_name :: jval
  email :: jval

text \<open>The database: four tables, each with its primary-key counter.\<close>

record db =
  users :: "uid \<rightharpoonup> user"
  next_user :: nat
  benefactors :: "bid \<rightharpoonup> benefactor"
  next_benefactor :: nat
  charities :: "cid \<rightharpoonup> charity"
  next_charity :: nat
  tasks :: "tid \<rightharpoonup> task"
  next_task :: nat

definition empty_db :: db where
  "empty_db = \<lparr>users = Map.empty, next_user = 0, benefactors = Map.empty, next_benefactor = 0,
     charities = Map.empty, next_charity = 0, tasks = Map.empty, next_task = 0\<rparr>"

section \<open>HTTP vocabulary\<close>

datatype http_method = GET | HEAD | OPTIONS | POST | PUT | PATCH | DELETE

text \<open>\<open>rest_framework.permissions.SAFE_METHODS\<close>.\<close>

definition safe_methods :: "http_method list" where
  "safe_methods = [GET, HEAD, OPTIONS]"

datatype status =
    HTTP_200_OK | HTTP_201_CREATED | HTTP_400_BAD_REQUEST | HTTP_401_UNAUTHORIZED
  | HTTP_403_FORBIDDEN | HTTP_404_NOT_FOUND | HTTP_500_INTERNAL_SERVER_ERROR

type_synonym field_errors = "(string \<times> string) list"

text \<open>A parsed request body (\<open>request.data\<close>): a JSON object (or a form, which
  behaves as a dictionary), or any other JSON value (an array or a scalar), of which
  only the Python type name matters to the views.\<close>

datatype req_body = ReqObject json_obj | ReqOther string

text \<open>A serializer's field validation (\<open>is_valid\<close> and \<open>validated_data\<close>) of the
  data it is given: the validated fields or the errors, per field. A serializer given
  anything but a dictionary reports an error.\<close>

type_synonym field_validator = "req_body \<Rightarrow> field_errors + json_obj"

text \<open>What a \<open>Response\<close> carries: a \<open>detail\<close> message, a serializer's errors, a
  serialized object, or the primary keys of a serialized task list.\<close>

datatype body = Detail string | Errors field_errors | Data json_obj | TaskList "tid list"

datatype response = Response status body

fun resp_status :: "response \<Rightarrow> status" where
  "resp_status (Response s _) = s"

text \<open>An exception that escapes a view; the framework answers it with status 500.\<close>

datatype py_error =
    RelatedObjectDoesNotExist
  | KeyError string
  | IntegrityError
  | NoResponseReturned
  | AttributeError
  | TypeError
  | ValueError

record request =
  req_user :: "uid option"
  req_method :: http_method
  req_data :: req_body
  req_query :: query

section \<open>ORM helpers\<close>

text \<open>\<open>request.user.benefactor\<close> and \<open>request.user.charity\<close>: the profile row whose
  one-to-one \<open>user\<close> field is the given user.\<close>

definition user_benefactor :: "db \<Rightarrow> uid \<Rightarrow> bid option" where
  "user_benefactor d u = table_find (benefactors d) (next_benefactor d) (\<lambda>b. benefactor_user b = u)"

definition user_charity :: "db \<Rightarrow> uid \<Rightarrow> cid option" where
  "user_charity d u = table_find (charities d) (next_charity d) (\<lambda>c. charity_user c = u)"

text \<open>\<open>get_object_or_404(Task, id=task_id)\<close>: the row, or the 404 response that
  the framework makes of the \<open>Http404\<close> it raises.\<close>

definition not_found :: response where
  "not_found = Response HTTP_404_NOT_FOUND (Detail ''Not found.'')"

definition get_task_or_404 :: "db \<Rightarrow> tid \<Rightarrow> response + task" where
  "get_task_or_404 d t = (case tasks d t of None \<Rightarrow> Inl not_found | Some x \<Rightarrow> Inr x)"

text \<open>\<open>task.save()\<close> writes every field of the in-memory object back to its row.\<close>

definition save_task :: "db \<Rightarrow> tid \<Rightarrow> task \<Rightarrow> db" where
  "save_task d t x = d\<lparr>tasks := (tasks d)(t \<mapsto> x)\<rparr>"

text \<open>\<open>request.user.benefactor\<close> and \<open>request.user.charity\<close> in a view: the
  \<open>AnonymousUser\<close> of an unauthenticated request has no such attribute
  (\<open>AttributeError\<close>), and a user without the profile raises
  \<open>RelatedObjectDoesNotExist\<close>.\<close>

definition request_user_benefactor :: "db \<Rightarrow> uid option \<Rightarrow> py_error + bid" where
  "request_user_benefactor d u =
     (case u of
        None \<Rightarrow> Inl AttributeError
      | Some uid \<Rightarrow> (case user_benefactor d uid of None \<Rightarrow> Inl RelatedObjectDoesNotExist | Some b \<Rightarrow> Inr b))"

definition request_user_charity :: "db \<Rightarrow> uid option \<Rightarrow> py_error + cid" where
  "request_user_charity d u =
     (case u of
        None \<Rightarrow> Inl AttributeError
      | Some uid \<Rightarrow> (case user_charity d uid of None \<Rightarrow> Inl RelatedObjectDoesNotExist | Some c \<Rightarrow> Inr c))"

text \<open>\<open>request.data.get(k)\<close>: the value under \<open>k\<close> or \<open>None\<close> for a dictionary;
  a list or a scalar has no method \<open>get\<close> (\<open>AttributeError\<close>).\<close>

definition data_get :: "req_body \<Rightarrow> string \<Rightarrow> py_error + jval option" where
  "data_get b k = (case b of ReqObject m \<Rightarrow> Inr (m k) | ReqOther ty \<Rightarrow> Inl AttributeError)"

text \<open>The answer the framework gives to an exception that escapes a view.\<close>

definition server_error :: response where
  "server_error = Response HTTP_500_INTERNAL_SERVER_ERROR (Detail ''Server Error (500)'')"

section \<open>Permission classes\<close>

datatype permission = IsAuthenticated | IsBenefactor | IsCharityOwner

fun has_permission :: "db \<Rightarrow> uid option \<Rightarrow> permission \<Rightarrow> bool" where
  "has_permission d u IsAuthenticated = (u \<noteq> None)"
| "has_permission d None IsBenefactor = False"
| "has_permission d (Some u) IsBenefactor = (user_benefactor d u \<noteq> None)"
| "has_permission d None IsCharityOwner = False"
| "has_permission d (Some u) IsCharityOwner = (user_charity d u \<noteq> None)"

text \<open>\<open>APIView.check_permissions\<close>: the classes are tried in order and the first
  that refuses ends the request (\<open>APIView.permission_denied\<close>). An anonymous caller is
  refused with \<open>NotAuthenticated\<close>, which \<open>APIView.handle_exception\<close> answers with
  401 when the first authentication class names a \<open>WWW-Authenticate\<close> header (token or
  basic authentication, the flag \<open>w\<close>) and with 403 otherwise (session
  authentication); an authenticated caller is refused with \<open>PermissionDenied\<close> (403).
  The authentication classes are settings outside the sources, so the flag is a
  parameter.\<close>

definition permission_denied :: "bool \<Rightarrow> uid option \<Rightarrow> response" where
  "permission_denied w u = (case u of
      None \<Rightarrow> Response (if w then HTTP_401_UNAUTHORIZED else HTTP_403_FORBIDDEN)
                 (Detail ''Authentication credentials were not provided.'')
    | Some _ \<Rightarrow> Response HTTP_403_FORBIDDEN (Detail ''You do not have permission to perform this action.''))"

fun check_permissions :: "bool \<Rightarrow> db \<Rightarrow> uid option \<Rightarrow> permission list \<Rightarrow> response option" where
  "check_permissions w d u [] = None"
| "check_permissions w d u (p # ps) =
     (if has_permission d u p then check_permissions w d u ps else Some (permission_denied w u))"

section \<open>Well-formed databases\<close>

text \<open>
  What the models' declarations and the lifecycle keep true of the stored rows:
  keys below their counters, foreign keys that resolve, one profile of each kind
  per user (the one-to-one \<open>user\<close> fields), and a task that has an assigned
  benefactor exactly when it has left \<open>PENDING\<close>.
\<close>

definition wf_task :: "db \<Rightarrow> task \<Rightarrow> bool" where
  "wf_task d x \<longleftrightarrow> task_charity x \<in> dom (charities d) \<and>
     (case assigned_benefactor x of
        None \<Rightarrow> state x = PENDING
      | Some b \<Rightarrow> state x \<noteq> PENDING \<and> b \<in> dom (benefactors d))"

definition one_per_user :: "(nat \<rightharpoonup> 'a) \<Rightarrow> ('a \<Rightarrow> uid) \<Rightarrow> bool" where
  "one_per_user m f \<longleftrightarrow>
     (\<forall>i j x y. m i = Some x \<longrightarrow> m j = Some y \<longrightarrow> f x = f y \<longrightarrow> i = j)"

definition wf_db :: "db \<Rightarrow> bool" where
  "wf_db d \<longleftrightarrow>
     keys_below (users d) (next_user d) \<and>
     keys_below (benefactors d) (next_benefactor d) \<and>
     keys_below (charities d) (next_charity d) \<and>
     keys_below (tasks d) (next_task d) \<and>
     (\<forall>b x. benefactors d b = Some x \<longrightarrow> benefactor_user x \<in> dom (users d)) \<and>
     (\<forall>c x. charities d c = Some x \<longrightarrow> charity_user x \<in> dom (users d)) \<and>
     one_per_user (benefactors d) benefactor_user \<and>
     one_per_user (charities d) charity_user \<and>
     (\<forall>t x. tasks d t = Some x \<longrightarrow> wf_task d x)"

section \<open>A small example database\<close>

text \<open>Used by the witnesses: user 0 owns charity 0, users 1 and 2 are the
  benefactors 0 and 1, user 3 owns charity 1; task 0 is pending, task 1 waits for
  benefactor 0, task 2 is assigned to benefactor 1; all three belong to charity 0.\<close>

definition blank_user :: "string \<Rightarrow> user" where
  "blank_user n = \<lparr>username = JStr n, password = ''!'', phone = JNull, address = JNull,
     gender = JNull, age = JNull, description = JNull, first_name = JNull, last_name = JNull,
     email = JNull\<rparr>"

definition demo_task :: "task_status \<Rightarrow> bid option \<Rightarrow> task" where
  "demo_task s a = \<lparr>task_charity = 0, state = s, assigned_benefactor = a, task_fields = Map.empty\<rparr>"

definition demo_db :: db where
  "demo_db = \<lparr>users = [0 \<mapsto> blank_user ''charity'', 1 \<mapsto> blank_user ''b1'',
                      2 \<mapsto> blank_user ''b2'', 3 \<mapsto> blank_user ''other''],
     next_user = 4,
     benefactors = [0 \<mapsto> \<lparr>benefactor_user = 1, benefactor_fields = Map.empty\<rparr>,
                    1 \<mapsto> \<lparr>benefactor_user = 2, benefactor_fields = Map.empty\<rparr>],
     next_benefactor = 2,
     charities = [0 \<mapsto> \<lparr>charity_user = 0, charity_fields = Map.empty\<rparr>,
                  1 \<mapsto> \<lparr>charity_user = 3, charity_fields = Map.empty\<rparr>],
     next_charity = 2,
     tasks = [0 \<mapsto> demo_task PENDING None, 1 \<mapsto> demo_task WAITING (Some 0),
              2 \<mapsto> demo_task ASSIGNED (Some 1)],
     next_task = 3\<rparr>"

section \<open>Lemmas on the helpers\<close>

lemma user_benefactor_SomeD:
  "user_benefactor d u = Some b \<Longrightarrow>
     b < next_benefactor d \<and> (\<exists>x. benefactors d b = Some x \<and> benefactor_user x = u)"
  unfolding user_benefactor_def by (drule table_find_SomeD) simp

lemma user_charity_SomeD:
  "user_charity d u = Some c \<Longrightarrow>
     c < next_charity d \<and> (\<exists>x. charities d c = Some x \<and> charity_user x = u)"
  unfolding user_charity_def by (drule table_find_SomeD) simp

lemma user_benefactor_dom: "user_benefactor d u = Some b \<Longrightarrow> b \<in> dom (benefactors d)"
  by (auto dest: user_benefactor_SomeD)

lemma user_benefactor_unique:
  assumes "wf_db d" and "benefactors d b = Some x"
  shows "user_benefactor d (benefactor_user x) = Some b"
proof -
  have "b < next_benefactor d"
    using assms by (auto simp: wf_db_def intro: keys_below_Some)
  with assms show ?thesis
    unfolding user_benefactor_def wf_db_def one_per_user_def
    by (intro table_find_unique) auto
qed

lemma user_charity_unique:
  assumes "wf_db d" and "charities d c = Some x"
  shows "user_charity d (charity_user x) = Some c"
proof -
  have "c < next_charity d"
    using assms by (auto simp: wf_db_def intro: keys_below_Some)
  with assms show ?thesis
    unfolding user_charity_def wf_db_def one_per_user_def
    by (intro table_find_unique) auto
qed

text \<open>Saving a task leaves the profile lookups alone.\<close>

lemma save_task_simps [simp]:
  "users (save_task d t x) = users d"
  "benefactors (save_task d t x) = benefactors d"
  "charities (save_task d t x) = charities d"
  "next_user (save_task d t x) = next_user d"
  "next_benefactor (save_task d t x) = next_benefactor d"
  "next_charity (save_task d t x) = next_charity d"
  "next_task (save_task d t x) = next_task d"
  "tasks (save_task d t x) = (tasks d)(t \<mapsto> x)"
  by (simp_all add: save_task_def)

lemma save_task_save_task [simp]: "save_task (save_task d t x) t y = save_task d t y"
  by (simp add: save_task_def)

lemma user_lookups_save_task [simp]:
  "user_benefactor (save_task d t x) u = user_benefactor d u"
  "user_charity (save_task d t x) u = user_charity d u"
  by (simp_all add: user_benefactor_def user_charity_def)

lemma request_user_simps [simp]:
  "request_user_benefactor d None = Inl AttributeError"
  "request_user_charity d None = Inl AttributeError"
  "user_benefactor d u = None \<Longrightarrow> request_user_benefactor d (Some u) = Inl RelatedObjectDoesNotExist"
  "user_benefactor d u = Some b \<Longrightarrow> request_user_benefactor d (Some u) = Inr b"
  "user_charity d u = None \<Longrightarrow> request_user_charity d (Some u) = Inl RelatedObjectDoesNotExist"
  "user_charity d u = Some c \<Longrightarrow> request_user_charity d (Some u) = Inr c"
  by (simp_all add: request_user_benefactor_def request_user_charity_def)

lemma request_user_benefactor_InrD:
  "request_user_benefactor d u = Inr b \<Longrightarrow> \<exists>uid. u = Some uid \<and> user_benefactor d uid = Some b"
  by (auto simp: request_user_benefactor_def split: option.splits)

lemma request_user_charity_InrD:
  "request_user_charity d u = Inr c \<Longrightarrow> \<exists>uid. u = Some uid \<and> user_charity d uid = Some c"
  by (auto simp: request_user_charity_def split: option.splits)

lemma request_user_save_task [simp]:
  "request_user_benefactor (save_task d t x) u = request_user_benefactor d u"
  "request_user_charity (save_task d t x) u = request_user_charity d u"
  by (simp_all add: request_user_benefactor_def request_user_charity_def split: option.splits)

lemma data_get_simps [simp]:
  "data_get (ReqObject m) k = Inr (m k)"
  "data_get (ReqOther ty) k = Inl AttributeError"
  by (simp_all add: data_get_def)

lemma check_permissions_None_iff:
  "check_permissions w d u ps = None \<longleftrightarrow> (\<forall>p \<in> set ps. has_permission d u p)"
  by (induction ps) auto

text \<open>The permission classes \<open>IsBenefactor\<close> and \<open>IsCharityOwner\<close> guarantee the
  profile that \<open>request.user.benefactor\<close> or \<open>request.user.charity\<close> reads.\<close>

lemma has_permission_request_user:
  "has_permission d u IsBenefactor \<Longrightarrow> \<exists>b. request_user_benefactor d u = Inr b"
  "has_permission d u IsCharityOwner \<Longrightarrow> \<exists>c. request_user_charity d u = Inr c"
  by (cases u; auto)+

lemma check_permissions_Some:
  "check_permissions w d u ps = Some r \<Longrightarrow> r = permission_denied w u"
  by (induction ps) (auto split: if_splits)

text \<open>Overwriting an existing task with a well-formed one keeps the database well formed.\<close>

lemma wf_task_save_task [simp]: "wf_task (save_task d t y) x = wf_task d x"
  by (simp add: wf_task_def split: option.splits)

text \<open>A task row stays well formed when profiles are added.\<close>

lemma wf_task_mono:
  assumes "wf_task d x"
    and "dom (charities d) \<subseteq> dom (charities d')" and "dom (benefactors d) \<subseteq> dom (benefactors d')"
  shows "wf_task d' x"
  using assms by (auto simp: wf_task_def split: option.splits)

lemma wf_db_save_task:
  assumes "wf_db d" and "tasks d t = Some x" and "wf_task d y"
  shows "wf_db (save_task d t y)"
  using assms by (auto simp: wf_db_def)

lemma demo_db_wf: "wf_db demo_db"
  by (auto simp: wf_db_def demo_db_def keys_below_def one_per_user_def wf_task_def demo_task_def)

lemmas demo_simps = demo_db_def user_benefactor_def user_charity_def table_find_def upt_rec
  request_user_benefactor_def request_user_charity_def

end
