(* ===== verification/Lifecycle.thy ===== *)
theory Lifecycle
  imports Models
begin

text \<open>
  The task lifecycle: the three views of \<open>charities/views.py\<close> that move a task
  between states (\<open>TaskRequest.get\<close>, \<open>TaskResponse.post\<close>, \<open>DoneTask.post\<close>),
  each as a function from the database to the response and the new database, with an
  exception that escapes the view as \<open>Inl\<close>. Beside them, the lifecycle the
  specification's table describes, as an inductive step relation on the pair of a
  task's state and its assigned benefactor, and the refinement of the one by the other.
\<close>

section \<open>The views\<close>

text \<open>\<open>TaskRequest.get\<close> (views.py 81--93): the task must be \<open>PENDING\<close>; it becomes
  \<open>WAITING\<close> with the caller's benefactor profile assigned. The profile is read after
  the state guard, so a caller without one gets the exception only for a pending task.
  The caller is \<open>request.user\<close>, \<open>None\<close> for the anonymous user.\<close>

definition task_request_get :: "db \<Rightarrow> uid option \<Rightarrow> tid \<Rightarrow> py_error + (response \<times> db)" where
  "task_request_get d u t =
     (case get_task_or_404 d t of
        Inl r \<Rightarrow> Inr (r, d)
      | Inr x \<Rightarrow>
          if state x \<noteq> PENDING
          then Inr (Response HTTP_404_NOT_FOUND (Detail ''This task is not pending.''), d)
          else sum_bind (request_user_benefactor d u) (\<lambda>b.
                 Inr (Response HTTP_200_OK (Detail ''Request sent.''),
                      save_task d t (x\<lparr>state := WAITING, assigned_benefactor := Some b\<rparr>))))"

text \<open>\<open>TaskResponse.post\<close> (views.py 102--131): the task is looked up first, then
  \<open>request.data.get("response")\<close> is read (which raises on a body that is not a
  dictionary), checked against \<open>["A", "R"]\<close>, then the state. When none of the two
  final \<open>if\<close>s is taken the method returns \<open>None\<close>, which the framework rejects;
  the last branch models that.\<close>

definition response_choices :: "jval option list" where
  "response_choices = [Some (JStr ''A''), Some (JStr ''R'')]"

definition response_required :: response where
  "response_required = Response HTTP_400_BAD_REQUEST
     (Detail (''Required field (''
              @ [CHR 0x22] @ ''A'' @ [CHR 0x22] @ '' for accepted / ''
              @ [CHR 0x22] @ ''R'' @ [CHR 0x22] @ '' for rejected)''))"

definition response_sent :: response where
  "response_sent = Response HTTP_200_OK (Detail ''Response sent.'')"

definition task_response_post :: "db \<Rightarrow> tid \<Rightarrow> req_body \<Rightarrow> py_error + (response \<times> db)" where
  "task_response_post d t data =
     (case get_task_or_404 d t of
        Inl r \<Rightarrow> Inr (r, d)
      | Inr x \<Rightarrow>
          sum_bind (data_get data ''response'') (\<lambda>response.
           if response \<notin> set response_choices then Inr (response_required, d)
           else if state x \<noteq> WAITING
           then Inr (Response HTTP_404_NOT_FOUND (Detail ''This task is not waiting.''), d)
           else if response = Some (JStr ''A'')
           then Inr (response_sent, save_task d t (x\<lparr>state := ASSIGNED\<rparr>))
           else if response = Some (JStr ''R'')
           then Inr (response_sent,
                     save_task d t (x\<lparr>state := PENDING, assigned_benefactor := None\<rparr>))
           else Inl NoResponseReturned))"

text \<open>\<open>DoneTask.post\<close> (views.py 141--160): an \<open>ASSIGNED\<close> task becomes \<open>DONE\<close>;
  nothing else of the row changes.\<close>

definition done_task_post :: "db \<Rightarrow> tid \<Rightarrow> response \<times> db" where
  "done_task_post d t =
     (case get_task_or_404 d t of
        Inl r \<Rightarrow> (r, d)
      | Inr x \<Rightarrow>
          if state x \<noteq> ASSIGNED
          then (Response HTTP_404_NOT_FOUND (Detail ''Task is not assigned yet.''), d)
          else (Response HTTP_200_OK (Detail ''Task has been done successfully.''),
                save_task d t (x\<lparr>state := DONE\<rparr>)))"

text \<open>The \<open>permission_classes\<close> of the three views (lines 79, 100 and 139).\<close>

definition task_request_permissions :: "permission list" where
  "task_request_permissions = [IsAuthenticated, IsBenefactor]"

definition task_response_permissions :: "permission list" where
  "task_response_permissions = [IsAuthenticated, IsCharityOwner]"

definition done_task_permissions :: "permission list" where
  "done_task_permissions = [IsAuthenticated, IsCharityOwner]"

declare task_request_get_def [handler_defs] task_response_post_def [handler_defs]
  done_task_post_def [handler_defs] get_task_or_404_def [handler_defs]

text \<open>The three views as operations on one task, the caller of a request and the body
  of a response being the operations' arguments.\<close>

datatype lc_op = OpRequest "uid option" | OpResponse req_body | OpDone

fun lc_handler :: "db \<Rightarrow> tid \<Rightarrow> lc_op \<Rightarrow> py_error + (response \<times> db)" where
  "lc_handler d t (OpRequest u) = task_request_get d u t"
| "lc_handler d t (OpResponse data) = task_response_post d t data"
| "lc_handler d t OpDone = Inr (done_task_post d t)"

text \<open>A client's sequence of calls on one task, each on the database the previous one
  left; the first exception stops the sequence.\<close>

fun lc_run :: "db \<Rightarrow> tid \<Rightarrow> lc_op list \<Rightarrow> py_error + (response list \<times> db)" where
  "lc_run d t [] = Inr ([], d)"
| "lc_run d t (op # ops) =
     sum_bind (lc_handler d t op)
       (\<lambda>(r, d'). sum_bind (lc_run d' t ops) (\<lambda>(rs, d''). Inr (r # rs, d'')))"

section \<open>The lifecycle of the specification\<close>

text \<open>The table of specification section 4.1: a transition changes the state and the
  assigned benefactor of one task.\<close>

datatype lc_event = Request bid | Accept | Reject | MarkDone

type_synonym lc_state = "task_status \<times> bid option"

inductive lc_step :: "lc_state \<Rightarrow> lc_event \<Rightarrow> lc_state \<Rightarrow> bool" where
  request: "lc_step (PENDING, a) (Request b) (WAITING, Some b)"
| accept: "lc_step (WAITING, a) Accept (ASSIGNED, a)"
| reject: "lc_step (WAITING, a) Reject (PENDING, None)"
| mark_done: "lc_step (ASSIGNED, a) MarkDone (DONE, a)"

definition abs_task :: "task \<Rightarrow> lc_state" where
  "abs_task x = (state x, assigned_benefactor x)"

text \<open>Which abstract event an operation on the views is meant to perform.\<close>

fun op_event :: "db \<Rightarrow> lc_op \<Rightarrow> lc_event \<Rightarrow> bool" where
  "op_event d (OpRequest u) (Request b) = (request_user_benefactor d u = Inr b)"
| "op_event d (OpResponse data) Accept = (data_get data ''response'' = Inr (Some (JStr ''A'')))"
| "op_event d (OpResponse data) Reject = (data_get data ''response'' = Inr (Some (JStr ''R'')))"
| "op_event d OpDone MarkDone = True"
| "op_event d _ _ = False"

text \<open>A run of a view performs a transition of the lifecycle on task \<open>t\<close> when the
  task exists, the operation asks for an event, the lifecycle allows that event on the
  task's abstract state, and the new database is the old one with the task's row
  overwritten by a row that keeps its charity and its other fields.\<close>

definition lc_transition :: "db \<Rightarrow> tid \<Rightarrow> lc_op \<Rightarrow> db \<Rightarrow> bool" where
  "lc_transition d t op d' \<longleftrightarrow>
     (\<exists>x x' e. tasks d t = Some x \<and> op_event d op e \<and>
        lc_step (abs_task x) e (abs_task x') \<and>
        task_charity x' = task_charity x \<and> task_fields x' = task_fields x \<and>
        d' = save_task d t x')"

code_pred lc_step .

inductive_simps lc_step_simps: "lc_step s e s'"
inductive_cases lc_step_from_DONE: "lc_step (DONE, a) e s'"

text \<open>No transition leaves \<open>DONE\<close>: a finished task is final.\<close>

lemma lc_step_DONE_final: "\<not> lc_step (DONE, a) e s'"
  by (auto elim: lc_step_from_DONE)

lemma lc_transitionI:
  assumes "tasks d t = Some x" and "op_event d op e" and "lc_step (abs_task x) e (abs_task x')"
    and "task_charity x' = task_charity x" and "task_fields x' = task_fields x"
  shows "lc_transition d t op (save_task d t x')"
  using assms unfolding lc_transition_def by blast

section \<open>Behaviour of the views\<close>

lemma get_task_or_404_simps [simp]:
  "tasks d t = None \<Longrightarrow> get_task_or_404 d t = Inl not_found"
  "tasks d t = Some x \<Longrightarrow> get_task_or_404 d t = Inr x"
  by (simp_all add: get_task_or_404_def)

text \<open>C1: on an existing task and a caller with a benefactor profile, a request
  succeeds exactly when the task is \<open>PENDING\<close>; it then makes the task
  \<open>WAITING\<close> with the caller's benefactor assigned, and otherwise changes nothing.\<close>

theorem task_request_get_existing:
  assumes "tasks d t = Some x" and "user_benefactor d u = Some b"
  shows "task_request_get d (Some u) t =
    (if state x = PENDING
     then Inr (Response HTTP_200_OK (Detail ''Request sent.''),
               save_task d t (x\<lparr>state := WAITING, assigned_benefactor := Some b\<rparr>))
     else Inr (Response HTTP_404_NOT_FOUND (Detail ''This task is not pending.''), d))"
  using assms by (simp add: task_request_get_def)

text \<open>The request view raises only on a pending task whose caller has no benefactor
  profile: the accessor \<open>request.user.benefactor\<close> is evaluated after the guard.\<close>

lemma task_request_get_Inl_iff:
  "task_request_get d u t = Inl e \<longleftrightarrow>
     (\<exists>x. tasks d t = Some x \<and> state x = PENDING) \<and> request_user_benefactor d u = Inl e"
  by (auto simp: task_request_get_def get_task_or_404_def sum_bind_def split: option.splits sum.splits)

text \<open>C2: on an existing task, a \<open>response\<close> field that is neither \<open>"A"\<close> nor
  \<open>"R"\<close> (absent, another string, a number) is answered 400 and the database is left
  as it was, whatever the task's state.\<close>

theorem task_response_invalid:
  assumes "tasks d t = Some x"
    and "data ''response'' \<noteq> Some (JStr ''A'')" and "data ''response'' \<noteq> Some (JStr ''R'')"
  shows "task_response_post d t (ReqObject data) = Inr (response_required, d)"
  using assms by (simp add: task_response_post_def response_choices_def)

text \<open>C3: a rejection succeeds exactly on a \<open>WAITING\<close> task; it puts the task back
  to \<open>PENDING\<close> and clears its assigned benefactor.\<close>

theorem task_response_reject:
  assumes "tasks d t = Some x" and "data ''response'' = Some (JStr ''R'')"
  shows "task_response_post d t (ReqObject data) =
    (if state x = WAITING
     then Inr (response_sent, save_task d t (x\<lparr>state := PENDING, assigned_benefactor := None\<rparr>))
     else Inr (Response HTTP_404_NOT_FOUND (Detail ''This task is not waiting.''), d))"
  using assms by (simp add: task_response_post_def response_choices_def)

text \<open>C4: an acceptance succeeds exactly on a \<open>WAITING\<close> task; it makes the task
  \<open>ASSIGNED\<close> and keeps its benefactor.\<close>

theorem task_response_accept:
  assumes "tasks d t = Some x" and "data ''response'' = Some (JStr ''A'')"
  shows "task_response_post d t (ReqObject data) =
    (if state x = WAITING
     then Inr (response_sent, save_task d t (x\<lparr>state := ASSIGNED\<rparr>))
     else Inr (Response HTTP_404_NOT_FOUND (Detail ''This task is not waiting.''), d))"
  using assms by (simp add: task_response_post_def response_choices_def)

text \<open>C5: marking a task done succeeds exactly on an \<open>ASSIGNED\<close> task and changes
  its state to \<open>DONE\<close> and nothing else.\<close>

theorem done_task_existing:
  assumes "tasks d t = Some x"
  shows "done_task_post d t =
    (if state x = ASSIGNED
     then (Response HTTP_200_OK (Detail ''Task has been done successfully.''),
           save_task d t (x\<lparr>state := DONE\<rparr>))
     else (Response HTTP_404_NOT_FOUND (Detail ''Task is not assigned yet.''), d))"
  using assms by (simp add: done_task_post_def)

text \<open>C6: every view answers a missing task with the framework's 404 and leaves the
  database alone; in \<open>TaskResponse\<close> the lookup comes before the check of the
  \<open>response\<close> field, so even an invalid body gets 404, not 400.\<close>

theorem lc_handler_missing_task:
  assumes "tasks d t = None"
  shows "lc_handler d t op = Inr (not_found, d)"
  using assms by (cases op) (simp_all add: handler_defs)

lemma task_response_post_Inl_iff:
  "task_response_post d t data = Inl e \<longleftrightarrow>
     tasks d t \<noteq> None \<and> (\<exists>ty. data = ReqOther ty) \<and> e = AttributeError"
  by (cases data)
     (auto simp: task_response_post_def get_task_or_404_def response_choices_def
        split: option.splits)

lemma lc_handler_status:
  "lc_handler d t op = Inr (r, d') \<Longrightarrow>
     resp_status r \<in> {HTTP_200_OK, HTTP_400_BAD_REQUEST, HTTP_404_NOT_FOUND}"
  by (cases op)
     (auto simp: handler_defs not_found_def response_required_def response_sent_def Let_def
        sum_bind_eq_Inr split: option.splits if_splits)

text \<open>C7: the response view raises exactly one exception, \<open>AttributeError\<close>, and
  exactly when the task exists and the body is not a dictionary (a JSON array or
  scalar has no \<open>get\<close>); the fall-through after its two final \<open>if\<close>s, where
  Python would return \<open>None\<close>, is unreachable.\<close>

theorem task_response_post_raises:
  "task_response_post d t data = Inl e \<longleftrightarrow>
     tasks d t \<noteq> None \<and> (\<exists>ty. data = ReqOther ty) \<and> e = AttributeError"
  by (cases data)
     (auto simp: task_response_post_def get_task_or_404_def response_choices_def
        split: option.splits)

section \<open>Refinement of the lifecycle\<close>

lemma task_request_get_Inr:
  assumes "task_request_get d u t = Inr (r, d')"
  shows "(resp_status r = HTTP_200_OK \<and> lc_transition d t (OpRequest u) d') \<or>
         (resp_status r \<noteq> HTTP_200_OK \<and> d' = d)"
proof (cases "tasks d t")
  case None
  with assms show ?thesis by (auto simp: task_request_get_def not_found_def)
next
  case (Some x)
  show ?thesis
  proof (cases "state x = PENDING")
    case p: True
    with assms Some obtain b where b: "request_user_benefactor d u = Inr b"
      by (auto simp: task_request_get_def sum_bind_eq_Inr)
    have "lc_transition d t (OpRequest u)
            (save_task d t (x\<lparr>state := WAITING, assigned_benefactor := Some b\<rparr>))"
      using Some b p by (intro lc_transitionI [where e = "Request b"]) (auto simp: abs_task_def lc_step.intros)
    with assms Some b p show ?thesis by (auto simp: task_request_get_def)
  next
    case False
    with assms Some show ?thesis by (auto simp: task_request_get_def)
  qed
qed

lemma task_response_post_Inr:
  assumes "task_response_post d t data = Inr (r, d')"
  shows "(resp_status r = HTTP_200_OK \<and> lc_transition d t (OpResponse data) d') \<or>
         (resp_status r \<noteq> HTTP_200_OK \<and> d' = d)"
proof (cases "tasks d t")
  case None
  with assms show ?thesis by (auto simp: task_response_post_def not_found_def)
next
  case (Some x)
  with assms obtain v where v: "data_get data ''response'' = Inr v"
    by (auto simp: task_response_post_def sum_bind_eq_Inr)
  consider (A) "v = Some (JStr ''A'')" | (R) "v = Some (JStr ''R'')" | (other) "v \<notin> set response_choices"
    by (auto simp: response_choices_def)
  then show ?thesis
  proof cases
    case A
    have "state x = WAITING \<Longrightarrow> lc_transition d t (OpResponse data) (save_task d t (x\<lparr>state := ASSIGNED\<rparr>))"
      using Some v A by (intro lc_transitionI [where e = Accept]) (auto simp: abs_task_def lc_step.intros)
    with assms Some v A show ?thesis
      by (auto simp: task_response_post_def response_choices_def response_sent_def split: if_splits)
  next
    case R
    have "state x = WAITING \<Longrightarrow> lc_transition d t (OpResponse data)
            (save_task d t (x\<lparr>state := PENDING, assigned_benefactor := None\<rparr>))"
      using Some v R by (intro lc_transitionI [where e = Reject]) (auto simp: abs_task_def lc_step.intros)
    with assms Some v R show ?thesis
      by (auto simp: task_response_post_def response_choices_def response_sent_def split: if_splits)
  next
    case other
    with assms Some v show ?thesis
      by (auto simp: task_response_post_def response_required_def)
  qed
qed

lemma done_task_post_cases:
  assumes "done_task_post d t = (r, d')"
  shows "(resp_status r = HTTP_200_OK \<and> lc_transition d t OpDone d') \<or>
         (resp_status r \<noteq> HTTP_200_OK \<and> d' = d)"
proof (cases "tasks d t")
  case None
  with assms show ?thesis by (auto simp: done_task_post_def not_found_def)
next
  case (Some x)
  have "state x = ASSIGNED \<Longrightarrow> lc_transition d t OpDone (save_task d t (x\<lparr>state := DONE\<rparr>))"
    using Some by (intro lc_transitionI [where e = MarkDone]) (auto simp: abs_task_def lc_step.intros)
  with assms Some show ?thesis by (auto simp: done_task_post_def split: if_splits)
qed

lemma lc_handler_outcome:
  assumes "lc_handler d t op = Inr (r, d')"
  shows "(resp_status r = HTTP_200_OK \<and> lc_transition d t op d') \<or>
         (resp_status r \<noteq> HTTP_200_OK \<and> d' = d)"
  using assms
  by (cases op) (auto dest: task_request_get_Inr task_response_post_Inr done_task_post_cases)

text \<open>C8: every run of a view either answers 200 and performs one transition of the
  specification's lifecycle on the task it names (the transition the operation asks
  for, the task's charity and other fields untouched), or answers otherwise and leaves
  the database unchanged.\<close>

theorem lc_handler_refines:
  assumes "lc_handler d t op = Inr (r, d')"
  shows "(resp_status r = HTTP_200_OK \<and> lc_transition d t op d') \<or>
         (resp_status r \<noteq> HTTP_200_OK \<and> d' = d)"
  using assms by (rule lc_handler_outcome)

section \<open>The views keep the database well formed\<close>

lemma wf_task_lc_step:
  assumes "wf_task d x" and "lc_step (abs_task x) e (abs_task x')"
    and "task_charity x' = task_charity x"
    and "\<And>b. e = Request b \<Longrightarrow> b \<in> dom (benefactors d)"
  shows "wf_task d x'"
  using assms by (auto simp: wf_task_def abs_task_def lc_step_simps split: option.splits)

lemma lc_handler_keeps_wf:
  assumes "wf_db d" and "lc_handler d t op = Inr (r, d')"
  shows "wf_db d'"
  using lc_handler_outcome [OF assms(2)]
proof (elim disjE conjE)
  assume "lc_transition d t op d'"
  then obtain x x' e where x: "tasks d t = Some x" and ev: "op_event d op e"
    and st: "lc_step (abs_task x) e (abs_task x')"
    and ch: "task_charity x' = task_charity x" and d': "d' = save_task d t x'"
    unfolding lc_transition_def by blast
  have "wf_task d x" using assms(1) x by (auto simp: wf_db_def)
  moreover have "b \<in> dom (benefactors d)" if "e = Request b" for b
    using ev that by (cases op) (auto dest!: request_user_benefactor_InrD user_benefactor_SomeD)
  ultimately have "wf_task d x'" using st ch wf_task_lc_step by blast
  with assms(1) x d' show ?thesis by (simp add: wf_db_save_task)
next
  assume "d' = d"
  with assms(1) show ?thesis by simp
qed

text \<open>C9: each of the three views maps a well-formed database to a well-formed one;
  in particular a task has an assigned benefactor exactly when it is not \<open>PENDING\<close>.\<close>

theorem lc_handler_wf:
  assumes "wf_db d" and "lc_handler d t op = Inr (r, d')"
  shows "wf_db d'"
  using assms by (rule lc_handler_keeps_wf)

section \<open>Witnesses\<close>

text \<open>C25: the happy path of the specification completes. On a \<open>PENDING\<close> task and a
  caller with a benefactor profile, the calls request, accept and done, in this
  order, all answer without an exception, and leave the task \<open>DONE\<close> with the
  caller's benefactor assigned.\<close>

theorem lc_run_completes:
  assumes "tasks d t = Some x" and "state x = PENDING" and "user_benefactor d u = Some b"
  shows "lc_run d t [OpRequest (Some u), OpResponse (ReqObject [''response'' \<mapsto> JStr ''A'']), OpDone] =
    Inr ([Response HTTP_200_OK (Detail ''Request sent.''), response_sent,
          Response HTTP_200_OK (Detail ''Task has been done successfully.'')],
         save_task d t (x\<lparr>assigned_benefactor := Some b, state := DONE\<rparr>))"
  using assms
  by (simp add: task_request_get_def task_response_post_def response_choices_def done_task_post_def)

theorem task_request_get_existing_witness:
  "tasks demo_db 0 = Some (demo_task PENDING None) \<and> user_benefactor demo_db 1 = Some 0 \<and>
   task_request_get demo_db (Some 1) 0 =
     Inr (Response HTTP_200_OK (Detail ''Request sent.''),
          save_task demo_db 0 (demo_task WAITING (Some 0)))"
proof -
  have h: "tasks demo_db 0 = Some (demo_task PENDING None)" "user_benefactor demo_db 1 = Some 0"
    by (simp_all add: demo_simps)
  show ?thesis using task_request_get_existing [OF h] h by (simp add: demo_task_def)
qed

theorem task_response_invalid_witness:
  "tasks demo_db 1 = Some (demo_task WAITING (Some 0)) \<and>
   task_response_post demo_db 1 (ReqObject [''response'' \<mapsto> JStr ''X'']) = Inr (response_required, demo_db)"
proof -
  have h: "tasks demo_db 1 = Some (demo_task WAITING (Some 0))" by (simp add: demo_simps)
  show ?thesis using task_response_invalid [OF h] h by simp
qed

theorem task_response_reject_witness:
  "tasks demo_db 1 = Some (demo_task WAITING (Some 0)) \<and>
   task_response_post demo_db 1 (ReqObject [''response'' \<mapsto> JStr ''R'']) =
     Inr (response_sent, save_task demo_db 1 (demo_task PENDING None))"
proof -
  have h: "tasks demo_db 1 = Some (demo_task WAITING (Some 0))" by (simp add: demo_simps)
  show ?thesis using task_response_reject [OF h] h by (simp add: demo_task_def)
qed

theorem task_response_accept_witness:
  "tasks demo_db 1 = Some (demo_task WAITING (Some 0)) \<and>
   task_response_post demo_db 1 (ReqObject [''response'' \<mapsto> JStr ''A'']) =
     Inr (response_sent, save_task demo_db 1 (demo_task ASSIGNED (Some 0)))"
proof -
  have h: "tasks demo_db 1 = Some (demo_task WAITING (Some 0))" by (simp add: demo_simps)
  show ?thesis using task_response_accept [OF h] h by (simp add: demo_task_def)
qed

theorem done_task_existing_witness:
  "tasks demo_db 0 = Some (demo_task PENDING None) \<and>
   done_task_post demo_db 0 = (Response HTTP_404_NOT_FOUND (Detail ''Task is not assigned yet.''), demo_db)"
proof -
  have h: "tasks demo_db 0 = Some (demo_task PENDING None)" by (simp add: demo_simps)
  show ?thesis using done_task_existing [OF h] h by (simp add: demo_task_def)
qed

theorem lc_handler_missing_task_witness:
  "tasks demo_db 7 = None \<and>
   lc_handler demo_db 7 (OpResponse (ReqObject [''response'' \<mapsto> JStr ''X''])) = Inr (not_found, demo_db)"
proof -
  have h: "tasks demo_db 7 = None" by (simp add: demo_simps)
  show ?thesis using lc_handler_missing_task [OF h, of "OpResponse (ReqObject [''response'' \<mapsto> JStr ''X''])"] h by simp
qed

theorem lc_handler_refines_witness:
  "lc_handler demo_db 2 OpDone =
     Inr (Response HTTP_200_OK (Detail ''Task has been done successfully.''),
          save_task demo_db 2 (demo_task DONE (Some 1))) \<and>
   lc_transition demo_db 2 OpDone (save_task demo_db 2 (demo_task DONE (Some 1)))"
proof -
  have h: "lc_handler demo_db 2 OpDone =
     Inr (Response HTTP_200_OK (Detail ''Task has been done successfully.''),
          save_task demo_db 2 (demo_task DONE (Some 1)))"
    by (simp add: done_task_post_def demo_simps demo_task_def)
  show ?thesis using lc_handler_refines [OF h] h by simp
qed

theorem lc_handler_wf_witness:
  "wf_db demo_db \<and>
   lc_handler demo_db 0 (OpRequest (Some 1)) =
     Inr (Response HTTP_200_OK (Detail ''Request sent.''),
          save_task demo_db 0 (demo_task WAITING (Some 0))) \<and>
   wf_db (save_task demo_db 0 (demo_task WAITING (Some 0)))"
proof -
  have h: "lc_handler demo_db 0 (OpRequest (Some 1)) =
     Inr (Response HTTP_200_OK (Detail ''Request sent.''),
          save_task demo_db 0 (demo_task WAITING (Some 0)))"
    by (simp add: task_request_get_def demo_simps demo_task_def)
  show ?thesis using lc_handler_wf [OF demo_db_wf h] demo_db_wf h by simp
qed

theorem lc_run_completes_witness:
  "lc_run demo_db 0 [OpRequest (Some 1), OpResponse (ReqObject [''response'' \<mapsto> JStr ''A'']), OpDone] =
    Inr ([Response HTTP_200_OK (Detail ''Request sent.''), response_sent,
          Response HTTP_200_OK (Detail ''Task has been done successfully.'')],
         save_task demo_db 0 (demo_task DONE (Some 0)))"
proof -
  have "tasks demo_db 0 = Some (demo_task PENDING None)" "user_benefactor demo_db 1 = Some 0"
    by (simp_all add: demo_simps)
  from lc_run_completes [OF this(1) _ this(2)] show ?thesis by (simp add: demo_task_def)
qed
end
