(* ===== verification/Race.thy ===== *)
theory Race
  imports Lifecycle
begin

text \<open>
  Specification section 5: each transition view reads the task, checks its state and
  writes the whole row back with \<open>task.save()\<close>, with no lock and no transaction
  around the three. This theory splits every view at its \<open>save()\<close> into a read
  phase, which computes the answer and the row to write, and a commit phase, which
  writes it. Requests are then run under an explicit schedule of read and commit
  events. A read followed at once by its commit is the view of theory
  \<open>Lifecycle\<close> (\<open>lc_read_commit_split\<close>); well-formedness survives every
  schedule; and two benefactors whose reads overlap both receive \<open>Request sent.\<close>
  while the second write overwrites the first.
\<close>

section \<open>The views split at their write\<close>

text \<open>What a view has decided when it reaches \<open>task.save()\<close>: either it answers
  without writing, or it will write a row and then answer.\<close>

datatype phase = Answer response | Write tid task response

definition request_read :: "db \<Rightarrow> uid option \<Rightarrow> tid \<Rightarrow> py_error + phase" where
  "request_read d u t =
     (case get_task_or_404 d t of
        Inl r \<Rightarrow> Inr (Answer r)
      | Inr x \<Rightarrow>
          if state x \<noteq> PENDING
          then Inr (Answer (Response HTTP_404_NOT_FOUND (Detail ''This task is not pending.'')))
          else sum_bind (request_user_benefactor d u) (\<lambda>b.
                 Inr (Write t (x\<lparr>state := WAITING, assigned_benefactor := Some b\<rparr>)
                        (Response HTTP_200_OK (Detail ''Request sent.'')))))"

definition response_read :: "db \<Rightarrow> tid \<Rightarrow> req_body \<Rightarrow> py_error + phase" where
  "response_read d t data =
     (case get_task_or_404 d t of
        Inl r \<Rightarrow> Inr (Answer r)
      | Inr x \<Rightarrow>
          sum_bind (data_get data ''response'') (\<lambda>response.
           if response \<notin> set response_choices then Inr (Answer response_required)
           else if state x \<noteq> WAITING
           then Inr (Answer (Response HTTP_404_NOT_FOUND (Detail ''This task is not waiting.'')))
           else if response = Some (JStr ''A'')
           then Inr (Write t (x\<lparr>state := ASSIGNED\<rparr>) response_sent)
           else if response = Some (JStr ''R'')
           then Inr (Write t (x\<lparr>state := PENDING, assigned_benefactor := None\<rparr>) response_sent)
           else Inl NoResponseReturned))"

definition done_read :: "db \<Rightarrow> tid \<Rightarrow> phase" where
  "done_read d t =
     (case get_task_or_404 d t of
        Inl r \<Rightarrow> Answer r
      | Inr x \<Rightarrow>
          if state x \<noteq> ASSIGNED
          then Answer (Response HTTP_404_NOT_FOUND (Detail ''Task is not assigned yet.''))
          else Write t (x\<lparr>state := DONE\<rparr>)
                 (Response HTTP_200_OK (Detail ''Task has been done successfully.'')))"

fun lc_read :: "db \<Rightarrow> tid \<Rightarrow> lc_op \<Rightarrow> py_error + phase" where
  "lc_read d t (OpRequest u) = request_read d u t"
| "lc_read d t (OpResponse data) = response_read d t data"
| "lc_read d t OpDone = Inr (done_read d t)"

fun commit_phase :: "db \<Rightarrow> phase \<Rightarrow> response \<times> db" where
  "commit_phase d (Answer r) = (r, d)"
| "commit_phase d (Write t x r) = (r, save_task d t x)"

section \<open>Runs under a schedule\<close>

text \<open>Requests are numbered; request \<open>i\<close> is view operation \<open>snd (R i)\<close> on task
  \<open>fst (R i)\<close>. A run keeps the database, the writes that requests have decided but
  not yet made, and the answers sent so far.\<close>

datatype sched = Read nat | Commit nat

record run_state =
  store :: db
  pending :: "nat \<rightharpoonup> tid \<times> task \<times> response"
  answers :: "nat \<rightharpoonup> response"

definition init_run :: "db \<Rightarrow> run_state" where
  "init_run d = \<lparr>store = d, pending = Map.empty, answers = Map.empty\<rparr>"

fun run_step :: "(nat \<Rightarrow> tid \<times> lc_op) \<Rightarrow> run_state \<Rightarrow> sched \<Rightarrow> run_state" where
  "run_step R s (Read i) =
     (case lc_read (store s) (fst (R i)) (snd (R i)) of
        Inl e \<Rightarrow> s\<lparr>pending := (pending s)(i := None), answers := (answers s)(i \<mapsto> server_error)\<rparr>
      | Inr (Answer r) \<Rightarrow> s\<lparr>pending := (pending s)(i := None), answers := (answers s)(i \<mapsto> r)\<rparr>
      | Inr (Write t x r) \<Rightarrow> s\<lparr>pending := (pending s)(i \<mapsto> (t, x, r))\<rparr>)"
| "run_step R s (Commit i) =
     (case pending s i of
        None \<Rightarrow> s
      | Some (t, x, r) \<Rightarrow>
          s\<lparr>store := save_task (store s) t x, pending := (pending s)(i := None),
            answers := (answers s)(i \<mapsto> r)\<rparr>)"

definition run :: "(nat \<Rightarrow> tid \<times> lc_op) \<Rightarrow> run_state \<Rightarrow> sched list \<Rightarrow> run_state" where
  "run R s es = foldl (run_step R) s es"

text \<open>The race of specification section 5: benefactor 0 (user 1) and benefactor 1
  (user 2) of the example database request task 0, which is pending.\<close>

definition race_requests :: "nat \<Rightarrow> tid \<times> lc_op" where
  "race_requests i = (0, OpRequest (Some (if i = 0 then 1 else 2)))"

definition run_inv :: "run_state \<Rightarrow> bool" where
  "run_inv s \<longleftrightarrow> wf_db (store s) \<and>
     (\<forall>i t x r. pending s i = Some (t, x, r) \<longrightarrow>
        map_option task_charity (tasks (store s) t) = Some (task_charity x) \<and> wf_task (store s) x)"

section \<open>The split is the view\<close>

text \<open>Running the read phase of a view and then committing what it decided is the
  view itself, for every operation, task and database.\<close>

lemma lc_read_commit_split:
  "lc_handler d t op = map_sum id (commit_phase d) (lc_read d t op)"
  by (cases op)
     (auto simp: handler_defs request_read_def response_read_def done_read_def sum_bind_def
        split: option.splits sum.splits)

lemma run_Nil [simp]: "run R s [] = s"
  and run_Cons [simp]: "run R s (e # es) = run R (run_step R s e) es"
  and run_append: "run R s (es @ fs) = run R (run R s es) fs"
  by (simp_all add: run_def)

section \<open>Well-formedness under every schedule\<close>

lemma lc_read_Write:
  assumes "wf_db d" and "lc_read d t op = Inr (Write t' x r)"
  shows "t' = t \<and> map_option task_charity (tasks d t) = Some (task_charity x) \<and> wf_task d x"
proof (cases "tasks d t")
  case None
  with assms(2) show ?thesis
    by (cases op) (auto simp: request_read_def response_read_def done_read_def sum_bind_eq_Inr)
next
  case (Some y)
  then have wy: "wf_task d y" using assms(1) by (auto simp: wf_db_def)
  show ?thesis
  proof (cases op)
    case (OpRequest u)
    with assms(2) Some wy show ?thesis
      by (auto simp: request_read_def wf_task_def sum_bind_eq_Inr
          dest!: request_user_benefactor_InrD dest: user_benefactor_SomeD
          split: option.splits if_splits)
  next
    case (OpResponse data)
    with assms(2) Some wy show ?thesis
      by (auto simp: response_read_def wf_task_def sum_bind_eq_Inr split: option.splits if_splits)
  next
    case OpDone
    with assms(2) Some wy show ?thesis
      by (auto simp: done_read_def wf_task_def split: option.splits if_splits)
  qed
qed

lemma run_step_inv:
  assumes "run_inv s"
  shows "run_inv (run_step R s e)"
proof (cases e)
  case (Read i)
  show ?thesis
  proof (cases "lc_read (store s) (fst (R i)) (snd (R i))")
    case (Inl err)
    with assms Read show ?thesis by (auto simp: run_inv_def)
  next
    case (Inr p)
    then show ?thesis
    proof (cases p)
      case (Answer r)
      with assms Read Inr show ?thesis by (auto simp: run_inv_def)
    next
      case (Write t x r)
      with Inr have "lc_read (store s) (fst (R i)) (snd (R i)) = Inr (Write t x r)" by simp
      with assms have "map_option task_charity (tasks (store s) t) = Some (task_charity x) \<and>
                       wf_task (store s) x"
        unfolding run_inv_def by (metis lc_read_Write)
      with assms Read Inr Write show ?thesis by (auto simp: run_inv_def)
    qed
  qed
next
  case (Commit i)
  show ?thesis
  proof (cases "pending s i")
    case None
    with assms Commit show ?thesis by simp
  next
    case (Some p)
    obtain t x r where p: "p = (t, x, r)" by (cases p) auto
    with assms Some obtain y where y: "tasks (store s) t = Some y"
      and ch: "task_charity y = task_charity x" and wx: "wf_task (store s) x"
      unfolding run_inv_def by fastforce
    have "wf_db (save_task (store s) t x)"
      using assms y wx by (auto simp: run_inv_def intro: wf_db_save_task)
    have other: "map_option task_charity (tasks (save_task (store s) t x) t') = Some (task_charity x')
                 \<and> wf_task (save_task (store s) t x) x'"
      if "pending s j = Some (t', x', r')" for j t' x' r'
    proof -
      from assms that have "map_option task_charity (tasks (store s) t') = Some (task_charity x')"
        and "wf_task (store s) x'"
        unfolding run_inv_def by blast+
      with y ch show ?thesis by (cases "t' = t") auto
    qed
    with \<open>wf_db (save_task (store s) t x)\<close> Commit Some p show ?thesis
      unfolding run_inv_def by (simp del: save_task_simps) blast
  qed
qed

lemma run_inv_run: "run_inv s \<Longrightarrow> run_inv (run R s es)"
  by (induction es arbitrary: s) (auto intro: run_step_inv)

text \<open>C10: whatever the interleaving of the reads and writes of concurrent requests,
  a well-formed database stays well formed: every row a view writes is well formed
  on its own, and no view deletes the rows it refers to.\<close>

theorem run_preserves_wf:
  assumes "wf_db d"
  shows "wf_db (store (run R (init_run d) es))"
proof -
  have "run_inv (init_run d)" using assms by (simp add: run_inv_def init_run_def)
  then have "run_inv (run R (init_run d) es)" by (rule run_inv_run)
  then show ?thesis by (simp add: run_inv_def)
qed

section \<open>The lost update\<close>

text \<open>C11: two benefactors request the same pending task and both read it before
  either writes. Both are answered \<open>Request sent.\<close>, but the task ends up assigned
  to the second one only: the first benefactor's assignment is lost.\<close>

theorem concurrent_requests_lost_update:
  assumes "R 0 = (t, OpRequest (Some u1))" and "R 1 = (t, OpRequest (Some u2))"
    and "tasks d t = Some x" and "state x = PENDING"
    and "user_benefactor d u1 = Some b1" and "user_benefactor d u2 = Some b2"
  shows "answers (run R (init_run d) [Read 0, Read 1, Commit 0, Commit 1]) 0
           = Some (Response HTTP_200_OK (Detail ''Request sent.'')) \<and>
         answers (run R (init_run d) [Read 0, Read 1, Commit 0, Commit 1]) 1
           = Some (Response HTTP_200_OK (Detail ''Request sent.'')) \<and>
         tasks (store (run R (init_run d) [Read 0, Read 1, Commit 0, Commit 1])) t
           = Some (x\<lparr>state := WAITING, assigned_benefactor := Some b2\<rparr>)"
  using assms by (simp add: init_run_def request_read_def)

section \<open>Witnesses\<close>

theorem run_preserves_wf_witness:
  "wf_db demo_db \<and>
   wf_db (store (run race_requests (init_run demo_db) [Read 0, Read 1, Commit 0, Commit 1]))"
  using run_preserves_wf [OF demo_db_wf, of race_requests "[Read 0, Read 1, Commit 0, Commit 1]"]
    demo_db_wf by blast

theorem concurrent_requests_lost_update_witness:
  "user_benefactor demo_db 1 = Some 0 \<and> user_benefactor demo_db 2 = Some 1 \<and>
   answers (run race_requests (init_run demo_db) [Read 0, Read 1, Commit 0, Commit 1]) 0
     = Some (Response HTTP_200_OK (Detail ''Request sent.'')) \<and>
   answers (run race_requests (init_run demo_db) [Read 0, Read 1, Commit 0, Commit 1]) 1
     = Some (Response HTTP_200_OK (Detail ''Request sent.'')) \<and>
   tasks (store (run race_requests (init_run demo_db) [Read 0, Read 1, Commit 0, Commit 1])) 0
     = Some (demo_task WAITING (Some 1))"
proof -
  have h: "race_requests 0 = (0, OpRequest (Some 1))" "race_requests 1 = (0, OpRequest (Some 2))"
    "tasks demo_db 0 = Some (demo_task PENDING None)" "state (demo_task PENDING None) = PENDING"
    "user_benefactor demo_db 1 = Some 0" "user_benefactor demo_db 2 = Some 1"
    by (simp_all add: race_requests_def demo_simps demo_task_def)
  from concurrent_requests_lost_update [OF h] h(5,6) show ?thesis by (simp add: demo_task_def)
qed

end
