(* ===== verification/Progress.thy ===== *)
theory Progress
  imports Lifecycle
begin

text \<open>
  Progress of the task lifecycle. The four states are ordered as the lifecycle
  table of specification section 4.1 lists them; every transition but a rejection
  moves a task up this order, so without rejections a task makes at most three
  transitions, while a request and a
  rejection together restore the database exactly, so with rejections the number of
  transitions has no bound.
\<close>

section \<open>The order of the task states\<close>

fun status_rank :: "task_status \<Rightarrow> nat" where
  "status_rank PENDING = 0"
| "status_rank WAITING = 1"
| "status_rank ASSIGNED = 2"
| "status_rank DONE = 3"

instantiation task_status :: linorder
begin

definition less_eq_task_status :: "task_status \<Rightarrow> task_status \<Rightarrow> bool" where
  "less_eq_task_status x y \<longleftrightarrow> status_rank x \<le> status_rank y"

definition less_task_status :: "task_status \<Rightarrow> task_status \<Rightarrow> bool" where
  "less_task_status x y \<longleftrightarrow> status_rank x < status_rank y"

instance
proof
  fix x y :: task_status
  show "x \<le> y \<Longrightarrow> y \<le> x \<Longrightarrow> x = y"
    by (cases x; cases y) (simp_all add: less_eq_task_status_def)
qed (auto simp: less_eq_task_status_def less_task_status_def)

end

text \<open>A rejection is the one operation that moves a task back.\<close>

fun is_reject :: "lc_op \<Rightarrow> bool" where
  "is_reject (OpResponse data) = (data_get data ''response'' = Inr (Some (JStr ''R'')))"
| "is_reject _ = False"

text \<open>The transitions still open to a task: three for a pending one, none for a
  finished or a missing one.\<close>

definition lc_budget :: "db \<Rightarrow> tid \<Rightarrow> nat" where
  "lc_budget d t = (case tasks d t of None \<Rightarrow> 0 | Some x \<Rightarrow> 3 - status_rank (state x))"

definition ok_count :: "response list \<Rightarrow> nat" where
  "ok_count rs = length (filter (\<lambda>r. resp_status r = HTTP_200_OK) rs)"

section \<open>Lemmas\<close>

lemma status_rank_le_3: "status_rank s \<le> 3"
  by (cases s) simp_all

text \<open>Every step of the lifecycle but a rejection moves up the order.\<close>

lemma lc_step_up:
  assumes "lc_step s e s'" and "e \<noteq> Reject"
  shows "fst s < fst s'"
  using assms by (cases rule: lc_step.cases) (simp_all add: less_task_status_def)

lemma op_event_not_reject:
  "op_event d op e \<Longrightarrow> \<not> is_reject op \<Longrightarrow> e \<noteq> Reject"
  by (cases op; cases e) auto

lemma lc_handler_budget:
  assumes "lc_handler d t op = Inr (r, d')" and "\<not> is_reject op"
  shows "(if resp_status r = HTTP_200_OK then Suc (lc_budget d' t) else lc_budget d' t)
           \<le> lc_budget d t"
  using lc_handler_outcome [OF assms(1)]
proof
  assume h: "resp_status r = HTTP_200_OK \<and> lc_transition d t op d'"
  then obtain x x' e where x: "tasks d t = Some x" and "op_event d op e"
      and st: "lc_step (abs_task x) e (abs_task x')" and d': "d' = save_task d t x'"
    by (auto simp: lc_transition_def)
  with assms(2) have "state x < state x'"
    using lc_step_up op_event_not_reject by (fastforce simp: abs_task_def)
  with h x d' show ?thesis
    using status_rank_le_3 [of "state x'"]
    by (simp add: lc_budget_def less_task_status_def)
qed (auto)

lemma lc_run_budget:
  "lc_run d t ops = Inr (rs, d') \<Longrightarrow> \<not> list_ex is_reject ops \<Longrightarrow> ok_count rs \<le> lc_budget d t"
proof (induction ops arbitrary: d rs)
  case Nil
  then show ?case by (simp add: ok_count_def)
next
  case (Cons op ops)
  from Cons.prems(1) obtain r d1 rs' where
    h: "lc_handler d t op = Inr (r, d1)" and tl: "lc_run d1 t ops = Inr (rs', d')"
      and rs: "rs = r # rs'"
    by (auto simp: sum_bind_eq_Inr split: prod.splits)
  have "ok_count rs' \<le> lc_budget d1 t" using Cons.IH [OF tl] Cons.prems(2) by simp
  with lc_handler_budget [OF h] Cons.prems(2) rs show ?case
    by (auto simp: ok_count_def split: if_splits)
qed

lemma lc_budget_le_3: "lc_budget d t \<le> 3"
  by (simp add: lc_budget_def split: option.splits)

text \<open>C26: without rejections, a client's calls on one task answer 200 at most three
  times: each 200 is a transition that moves the task up the order
  \<open>PENDING < WAITING < ASSIGNED < DONE\<close>.\<close>

theorem lc_run_bounded:
  assumes "lc_run d t ops = Inr (rs, d')" and "\<not> list_ex is_reject ops"
  shows "length (filter (\<lambda>r. resp_status r = HTTP_200_OK) rs) \<le> 3"
  using lc_run_budget [OF assms] lc_budget_le_3 [of d t] by (simp add: ok_count_def)

text \<open>C27: a request followed by a rejection is a round trip: on a pending task with
  no benefactor, the two views answer 200 and leave the database exactly as it was,
  so the lifecycle can repeat this cycle without end and the number of transitions of
  a task has no bound once rejections are allowed.\<close>

theorem request_reject_roundtrip:
  assumes "tasks d t = Some x" and "state x = PENDING" and "assigned_benefactor x = None"
    and "user_benefactor d u = Some b"
  shows "lc_run d t [OpRequest (Some u), OpResponse (ReqObject [''response'' \<mapsto> JStr ''R''])] =
           Inr ([Response HTTP_200_OK (Detail ''Request sent.''), response_sent], d)"
proof -
  have "save_task d t (x\<lparr>state := PENDING, assigned_benefactor := None\<rparr>) = d"
    using assms(1-3) by (cases x, cases d) (simp add: save_task_def fun_upd_idem)
  with assms show ?thesis
    by (simp add: task_request_get_def task_response_post_def response_choices_def)
qed

theorem lc_run_bounded_witness:
  "lc_run demo_db 0 [OpRequest (Some 1), OpResponse (ReqObject [''response'' \<mapsto> JStr ''A'']), OpDone, OpDone] =
     Inr ([Response HTTP_200_OK (Detail ''Request sent.''), response_sent,
           Response HTTP_200_OK (Detail ''Task has been done successfully.''),
           Response HTTP_404_NOT_FOUND (Detail ''Task is not assigned yet.'')],
          save_task demo_db 0 (demo_task DONE (Some 0))) \<and>
   \<not> list_ex is_reject [OpRequest (Some 1), OpResponse (ReqObject [''response'' \<mapsto> JStr ''A'']), OpDone, OpDone] \<and>
   length (filter (\<lambda>r. resp_status r = HTTP_200_OK)
     [Response HTTP_200_OK (Detail ''Request sent.''), response_sent,
      Response HTTP_200_OK (Detail ''Task has been done successfully.''),
      Response HTTP_404_NOT_FOUND (Detail ''Task is not assigned yet.'')]) \<le> 3"
proof -
  have h: "lc_run demo_db 0 [OpRequest (Some 1), OpResponse (ReqObject [''response'' \<mapsto> JStr ''A'']), OpDone, OpDone] =
     Inr ([Response HTTP_200_OK (Detail ''Request sent.''), response_sent,
           Response HTTP_200_OK (Detail ''Task has been done successfully.''),
           Response HTTP_404_NOT_FOUND (Detail ''Task is not assigned yet.'')],
          save_task demo_db 0 (demo_task DONE (Some 0)))"
    by (simp add: task_request_get_def task_response_post_def response_choices_def
        done_task_post_def demo_simps demo_task_def)
  have r: "\<not> list_ex is_reject [OpRequest (Some 1), OpResponse (ReqObject [''response'' \<mapsto> JStr ''A'']), OpDone, OpDone]"
    by simp
  from h r lc_run_bounded [OF h r] show ?thesis by simp
qed

theorem request_reject_roundtrip_witness:
  "lc_run demo_db 0 [OpRequest (Some 2), OpResponse (ReqObject [''response'' \<mapsto> JStr ''R''])] =
     Inr ([Response HTTP_200_OK (Detail ''Request sent.''), response_sent], demo_db)"
proof -
  have "tasks demo_db 0 = Some (demo_task PENDING None)" "user_benefactor demo_db 2 = Some 1"
    by (simp_all add: demo_simps)
  then show ?thesis
    using request_reject_roundtrip [of demo_db 0 "demo_task PENDING None" 2 1]
    by (simp add: demo_task_def)
qed

end
