(* ===== verification/TaskList.thy ===== *)
theory TaskList
  imports Models
begin

text \<open>
  The \<open>Tasks\<close> view of \<open>charities/views.py\<close> (lines 36--72), a
  \<open>ListCreateAPIView\<close>: its permission choice by HTTP method, the task list visible
  to the caller filtered and excluded by query parameters, and the creation of a task
  under the caller's charity. The manager method \<open>all_related_tasks_to_user\<close>,
  the lookup tables \<open>Task.filtering_lookups\<close> and \<open>Task.excluding_lookups\<close> and
  the \<open>TaskSerializer\<close> live in files that are not among the sources: the manager
  method, the lookup tables and the meaning of a field lookup are parameters (record
  \<open>task_lookups\<close>), and so is the serializer's field validation.
\<close>

section \<open>Permissions\<close>

text \<open>\<open>Tasks.get_permissions\<close> (lines 52--58): reading needs an authenticated user,
  every other method a charity owner.\<close>

definition tasks_get_permissions :: "http_method \<Rightarrow> permission list" where
  "tasks_get_permissions m =
     (if m \<in> set safe_methods then [IsAuthenticated] else [IsCharityOwner])"

section \<open>Listing\<close>

text \<open>The parts of the \<open>Task\<close> model the view uses, which are not among the sources:
  the manager method \<open>Task.objects.all_related_tasks_to_user(user)\<close> (the primary
  keys of the tasks it returns, for a user or the anonymous one), the class attributes
  \<open>Task.filtering_lookups\<close> and \<open>Task.excluding_lookups\<close> (pairs of a lookup name
  such as \<open>title__icontains\<close> and the query parameter that feeds it) and the meaning
  \<open>lookup_holds name value row\<close> of a Django field lookup.\<close>

record task_lookups =
  all_related_tasks_to_user :: "db \<Rightarrow> uid option \<Rightarrow> tid list"
  filtering_lookups :: "(string \<times> string) list"
  excluding_lookups :: "(string \<times> string) list"
  lookup_holds :: "string \<Rightarrow> string \<Rightarrow> task \<Rightarrow> bool"

text \<open>\<open>Tasks.get_queryset\<close> (lines 39--40).\<close>

definition get_queryset :: "task_lookups \<Rightarrow> db \<Rightarrow> uid option \<Rightarrow> tid list" where
  "get_queryset L d u = all_related_tasks_to_user L d u"

text \<open>The two loops of \<open>Tasks.filter_queryset\<close> (lines 61--65 and 66--70): for
  every pair, the query parameter is read, and when it is present and non-empty the
  lookup is stored in the dictionary, a later pair overwriting an earlier one with the
  same lookup name. The dictionary is an association list updated in place.\<close>

fun collect_lookups :: "(string \<times> string) list \<Rightarrow> query \<Rightarrow> (string \<times> string) list \<Rightarrow>
    (string \<times> string) list" where
  "collect_lookups [] q acc = acc"
| "collect_lookups ((name, value) # ls) q acc =
     (case q value of
        Some param \<Rightarrow>
          if param \<noteq> [] then collect_lookups ls q (AList.update name param acc)
          else collect_lookups ls q acc
      | None \<Rightarrow> collect_lookups ls q acc)"

text \<open>The same dictionary described without the loop: the lookups whose parameter is
  present and non-empty, the last one winning.\<close>

definition active_lookups :: "(string \<times> string) list \<Rightarrow> query \<Rightarrow> (string \<times> string) list" where
  "active_lookups ls q =
     concat (map (\<lambda>(name, value). case q value of
                     Some param \<Rightarrow> if param \<noteq> [] then [(name, param)] else []
                   | None \<Rightarrow> []) ls)"

text \<open>\<open>QuerySet.filter(**kw)\<close> keeps the rows that satisfy every lookup;
  \<open>QuerySet.exclude(**kw)\<close> drops the rows that satisfy every lookup at once, and
  with no keyword at all returns the queryset unchanged.\<close>

definition row_holds :: "task_lookups \<Rightarrow> db \<Rightarrow> (string \<times> string) list \<Rightarrow> tid \<Rightarrow> bool" where
  "row_holds L d kw t =
     (case tasks d t of
        Some x \<Rightarrow> list_all (\<lambda>(name, param). lookup_holds L name param x) kw
      | None \<Rightarrow> False)"

definition qs_filter :: "task_lookups \<Rightarrow> db \<Rightarrow> (string \<times> string) list \<Rightarrow> tid list \<Rightarrow> tid list" where
  "qs_filter L d kw qs = filter (row_holds L d kw) qs"

definition qs_exclude :: "task_lookups \<Rightarrow> db \<Rightarrow> (string \<times> string) list \<Rightarrow> tid list \<Rightarrow> tid list" where
  "qs_exclude L d kw qs = (if kw = [] then qs else filter (\<lambda>t. \<not> row_holds L d kw t) qs)"

text \<open>\<open>Tasks.filter_queryset\<close> (lines 60--72).\<close>

definition filter_queryset :: "task_lookups \<Rightarrow> db \<Rightarrow> query \<Rightarrow> tid list \<Rightarrow> tid list" where
  "filter_queryset L d q qs =
     (let filter_lookups = collect_lookups (filtering_lookups L) q [];
          exclude_lookups = collect_lookups (excluding_lookups L) q []
      in qs_exclude L d exclude_lookups (qs_filter L d filter_lookups qs))"

text \<open>\<open>ListAPIView.list\<close> with the two overridden methods: the visible tasks,
  filtered, answered 200.\<close>

definition tasks_list :: "task_lookups \<Rightarrow> db \<Rightarrow> uid option \<Rightarrow> query \<Rightarrow> response" where
  "tasks_list L d u q = Response HTTP_200_OK (TaskList (filter_queryset L d q (get_queryset L d u)))"

section \<open>Creation\<close>

text \<open>\<open>TaskSerializer(data=data).is_valid()\<close>: the \<open>charity_id\<close> field must be the
  primary key of an existing charity; the other fields are checked by the serializer's
  field validation \<open>v\<close>, which returns the validated fields or the errors.\<close>

definition task_serializer_is_valid :: "field_validator \<Rightarrow> db \<Rightarrow> json_obj \<Rightarrow> field_errors + task" where
  "task_serializer_is_valid v d data =
     (case data ''charity_id'' of
        Some (JInt k) \<Rightarrow>
          if 0 \<le> k \<and> charities d (nat k) \<noteq> None
          then (case v (ReqObject data) of
                  Inl errs \<Rightarrow> Inl errs
                | Inr vfields \<Rightarrow> Inr \<lparr>task_charity = nat k, state = PENDING,
                                      assigned_benefactor = None, task_fields = vfields\<rparr>)
          else Inl [(''charity_id'', ''Invalid pk - object does not exist.'')]
      | _ \<Rightarrow> Inl [(''charity_id'', ''This field is required.'')])"

text \<open>\<open>serializer.save()\<close>: the row is inserted under the next primary key.\<close>

definition create_task :: "db \<Rightarrow> task \<Rightarrow> tid \<times> db" where
  "create_task d x =
     (next_task d, d\<lparr>tasks := (tasks d)(next_task d \<mapsto> x), next_task := Suc (next_task d)\<rparr>)"

definition task_data :: "task \<Rightarrow> json_obj" where
  "task_data x = (task_fields x)(''charity_id'' \<mapsto> JInt (int (task_charity x)))"

text \<open>\<open>Tasks.post\<close> (lines 42--50): the dictionary display
  \<open>{**request.data, "charity_id": request.user.charity.id}\<close> unpacks the body
  first (a \<open>TypeError\<close> when it is not a mapping), then reads the caller's charity,
  whose key, later in the display, wins; the result is validated with
  \<open>raise_exception=True\<close> (a 400 with the errors), saved, answered 201.\<close>

definition tasks_post :: "field_validator \<Rightarrow> db \<Rightarrow> uid option \<Rightarrow> req_body \<Rightarrow>
    py_error + (response \<times> db)" where
  "tasks_post v d u b =
     (case b of
        ReqOther ty \<Rightarrow> Inl TypeError
      | ReqObject body \<Rightarrow>
          sum_bind (request_user_charity d u) (\<lambda>c.
           let data = body(''charity_id'' \<mapsto> JInt (int c)) in
           case task_serializer_is_valid v d data of
             Inl errs \<Rightarrow> Inr (Response HTTP_400_BAD_REQUEST (Errors errs), d)
           | Inr x \<Rightarrow>
               (let (t, d') = create_task d x
                in Inr (Response HTTP_201_CREATED (Data (task_data x)), d'))))"

text \<open>Lookups for the witnesses: every caller sees tasks 0, 1 and 2, \<open>?title=\<close> filters on the title field,
  \<open>?not_state=P\<close> excludes pending tasks.\<close>

definition demo_lookups :: task_lookups where
  "demo_lookups = \<lparr>all_related_tasks_to_user = (\<lambda>d u. [0, 1, 2]),
     filtering_lookups = [(''title'', ''title'')],
     excluding_lookups = [(''state'', ''not_state'')],
     lookup_holds = (\<lambda>name param x.
       if name = ''state'' then (param = ''P'') = (state x = PENDING)
       else task_fields x ''title'' = Some (JStr param))\<rparr>"

section \<open>The lookup dictionaries\<close>

lemma active_lookups_Cons [simp]:
  "active_lookups ((name, value) # ls) q =
     (case q value of Some param \<Rightarrow> (if param \<noteq> [] then [(name, param)] else []) | None \<Rightarrow> [])
     @ active_lookups ls q"
  by (simp add: active_lookups_def)

lemma active_lookups_Nil [simp]: "active_lookups [] q = []"
  by (simp add: active_lookups_def)

lemma collect_lookups_map_of:
  "map_of (collect_lookups ls q acc) = map_of acc ++ map_of (rev (active_lookups ls q))"
proof (induction ls q acc rule: collect_lookups.induct)
  case (1 q acc)
  then show ?case by simp
next
  case (2 name v ls q acc)
  then show ?case
    by (auto simp: update_conv' map_add_def fun_eq_iff split: option.splits)
qed

lemma collect_lookups_distinct:
  "distinct (map fst acc) \<Longrightarrow> distinct (map fst (collect_lookups ls q acc))"
  by (induction ls q acc rule: collect_lookups.induct)
     (auto simp: distinct_update split: option.splits)

lemma list_all_distinct_map_of:
  assumes "distinct (map fst al)"
  shows "list_all (\<lambda>(n, p). P n p) al \<longleftrightarrow> (\<forall>n p. map_of al n = Some p \<longrightarrow> P n p)"
  using assms by (auto simp: list_all_iff dest: map_of_SomeD intro: map_of_is_SomeI)

text \<open>C12: the dictionary that each loop of \<open>filter_queryset\<close> builds maps a lookup
  name to the parameter of the last pair with that name whose query parameter is
  present and non-empty, and holds nothing else.\<close>

theorem collect_lookups_dict:
  "map_of (collect_lookups ls q []) = map_of (rev (active_lookups ls q))"
  by (simp add: collect_lookups_map_of)

section \<open>The filtered list\<close>

lemma row_holds_iff:
  "row_holds L d (collect_lookups ls q []) t \<longleftrightarrow>
     (\<exists>x. tasks d t = Some x \<and>
        (\<forall>n p. map_of (rev (active_lookups ls q)) n = Some p \<longrightarrow> lookup_holds L n p x))"
proof -
  have "distinct (map fst (collect_lookups ls q []))"
    by (rule collect_lookups_distinct) simp
  then show ?thesis
    by (auto simp: row_holds_def list_all_distinct_map_of collect_lookups_map_of
        split: option.splits)
qed

lemma collect_lookups_Nil_iff:
  "collect_lookups ls q [] = [] \<longleftrightarrow> active_lookups ls q = []"
proof -
  have "collect_lookups ls q [] = [] \<longleftrightarrow> map_of (collect_lookups ls q []) = Map.empty"
    by (simp add: map_of_eq_empty_iff)
  also have "\<dots> \<longleftrightarrow> map_of (rev (active_lookups ls q)) = Map.empty"
    by (simp add: collect_lookups_map_of)
  finally show ?thesis by (simp add: map_of_eq_empty_iff)
qed

text \<open>C13: a task is listed exactly when it is in the queryset, satisfies every active
  filtering lookup, and, when some excluding lookup is active, fails at least one of
  them: one \<open>exclude(**exclude_lookups)\<close> call drops only the tasks that match all
  active excluding lookups together.\<close>

theorem filter_queryset_member:
  "t \<in> set (filter_queryset L d q qs) \<longleftrightarrow>
     t \<in> set qs \<and>
     (\<exists>x. tasks d t = Some x \<and>
        (\<forall>n p. map_of (rev (active_lookups (filtering_lookups L) q)) n = Some p \<longrightarrow>
               lookup_holds L n p x) \<and>
        (active_lookups (excluding_lookups L) q = [] \<or>
         \<not> (\<forall>n p. map_of (rev (active_lookups (excluding_lookups L) q)) n = Some p \<longrightarrow>
                  lookup_holds L n p x)))"
  by (auto simp: filter_queryset_def qs_exclude_def qs_filter_def row_holds_iff
      collect_lookups_Nil_iff Let_def) blast


section \<open>Creation\<close>

text \<open>The view raises a \<open>TypeError\<close> on a body that is not a mapping, and
  otherwise exactly when \<open>request.user.charity\<close> does.\<close>

lemma tasks_post_Inl_iff:
  "tasks_post v d u b = Inl e \<longleftrightarrow>
     (\<exists>ty. b = ReqOther ty) \<and> e = TypeError \<or>
     (\<exists>body. b = ReqObject body) \<and> request_user_charity d u = Inl e"
  by (cases b)
     (auto simp: tasks_post_def sum_bind_def Let_def split: sum.splits prod.splits)

text \<open>C14: for a caller who owns charity \<open>c\<close>, a body the serializer accepts creates
  one task under the next primary key, owned by \<open>c\<close>, \<open>PENDING\<close> and with no
  benefactor, and is answered 201; a body it rejects is answered 400 with its errors
  and changes nothing.\<close>

theorem tasks_post_owner:
  assumes "user_charity d u = Some c"
  shows "tasks_post v d (Some u) (ReqObject body) =
    (case v (ReqObject (body(''charity_id'' \<mapsto> JInt (int c)))) of
       Inl errs \<Rightarrow> Inr (Response HTTP_400_BAD_REQUEST (Errors errs), d)
     | Inr f \<Rightarrow>
         (let x = \<lparr>task_charity = c, state = PENDING, assigned_benefactor = None, task_fields = f\<rparr>
          in Inr (Response HTTP_201_CREATED (Data (task_data x)), snd (create_task d x))))"
proof -
  from user_charity_SomeD [OF assms] have "charities d c \<noteq> None" by auto
  with assms show ?thesis
    by (auto simp: tasks_post_def task_serializer_is_valid_def create_task_def Let_def
        split: sum.splits)
qed

text \<open>C15: the \<open>charity_id\<close> a client puts in the body has no effect: the view
  overwrites it with the caller's charity before validation.\<close>

theorem tasks_post_ignores_charity_id:
  "tasks_post v d u (ReqObject (body(''charity_id'' := j))) = tasks_post v d u (ReqObject body)"
  by (simp add: tasks_post_def)

lemma create_task_wf:
  assumes "wf_db d" and "wf_task d x"
  shows "wf_db (snd (create_task d x))"
proof -
  have "wf_task (snd (create_task d x)) y = wf_task d y" for y
    by (simp add: create_task_def wf_task_def split: option.splits)
  with assms show ?thesis
    by (auto simp: wf_db_def create_task_def)
qed

lemma tasks_post_keeps_wf:
  assumes "wf_db d" and "tasks_post v d u b = Inr (r, d')"
  shows "wf_db d'"
proof -
  obtain body c where b: "b = ReqObject body" and c: "request_user_charity d u = Inr c"
    using assms(2) by (cases b) (auto simp: tasks_post_def sum_bind_eq_Inr)
  show ?thesis
  proof (cases "task_serializer_is_valid v d (body(''charity_id'' \<mapsto> JInt (int c)))")
    case (Inl errs)
    with assms b c show ?thesis by (simp add: tasks_post_def)
  next
    case (Inr x)
    have "c \<in> dom (charities d)"
      using c by (auto dest!: request_user_charity_InrD user_charity_SomeD)
    with Inr have "wf_task d x"
      by (auto simp: task_serializer_is_valid_def wf_task_def split: sum.splits)
    moreover from assms(2) b c Inr have "d' = snd (create_task d x)"
      by (simp add: tasks_post_def create_task_def)
    ultimately show ?thesis by (simp add: create_task_wf [OF assms(1)])
  qed
qed

section \<open>Witnesses\<close>

theorem filter_queryset_member_witness:
  "1 \<in> set (filter_queryset demo_lookups demo_db [''not_state'' \<mapsto> ''P''] [0, 1, 2]) \<and>
   0 \<notin> set (filter_queryset demo_lookups demo_db [''not_state'' \<mapsto> ''P''] [0, 1, 2])"
  using filter_queryset_member [of 1 demo_lookups demo_db "[''not_state'' \<mapsto> ''P'']" "[0, 1, 2]"]
    filter_queryset_member [of 0 demo_lookups demo_db "[''not_state'' \<mapsto> ''P'']" "[0, 1, 2]"]
  by (simp add: demo_lookups_def demo_simps demo_task_def)

theorem tasks_post_owner_witness:
  "user_charity demo_db 0 = Some 0 \<and>
   tasks_post (\<lambda>data. Inr Map.empty) demo_db (Some 0) (ReqObject [''charity_id'' \<mapsto> JInt 1]) =
     Inr (Response HTTP_201_CREATED (Data [''charity_id'' \<mapsto> JInt 0]),
          snd (create_task demo_db (demo_task PENDING None)))"
proof -
  have h: "user_charity demo_db 0 = Some 0" by (simp add: demo_simps)
  show ?thesis
    using tasks_post_owner [OF h, of "\<lambda>data. Inr Map.empty" "[''charity_id'' \<mapsto> JInt 1]"] h
    by (simp add: demo_task_def task_data_def)
qed


end
