(* ===== verification/Registration.thy ===== *)
theory Registration
  imports Models
begin

text \<open>
  Registration: the two profile views \<open>BenefactorRegistration.post\<close> and
  \<open>CharityRegistration.post\<close> of \<open>charities/views.py\<close> (lines 14--33) and
  \<open>UserSerializer.create\<close> of \<open>accounts/serializers.py\<close> (lines 12--26). The
  profile serializers' field validation is a parameter. Saving a profile inserts a row
  whose one-to-one \<open>user\<close> field is the caller; the database refuses a second profile
  of the same kind for one user with an \<open>IntegrityError\<close>. Saving a user inserts a
  row whose unique \<open>username\<close> must be new; the password hasher \<open>make_password\<close> is a
  parameter.
\<close>

section \<open>Profiles\<close>

definition save_benefactor :: "db \<Rightarrow> uid \<Rightarrow> json_obj \<Rightarrow> py_error + (bid \<times> db)" where
  "save_benefactor d u f =
     (if user_benefactor d u \<noteq> None then Inl IntegrityError
      else Inr (next_benefactor d,
                d\<lparr>benefactors := (benefactors d)(next_benefactor d \<mapsto>
                                   \<lparr>benefactor_user = u, benefactor_fields = f\<rparr>),
                  next_benefactor := Suc (next_benefactor d)\<rparr>))"

definition save_charity :: "db \<Rightarrow> uid \<Rightarrow> json_obj \<Rightarrow> py_error + (cid \<times> db)" where
  "save_charity d u f =
     (if user_charity d u \<noteq> None then Inl IntegrityError
      else Inr (next_charity d,
                d\<lparr>charities := (charities d)(next_charity d \<mapsto>
                                 \<lparr>charity_user = u, charity_fields = f\<rparr>),
                  next_charity := Suc (next_charity d)\<rparr>))"

text \<open>\<open>serializer.save(user=request.user)\<close> assigns the caller to the one-to-one
  \<open>user\<close> field; Django refuses to assign the \<open>AnonymousUser\<close> (which is not a
  \<open>User\<close> instance) with a \<open>ValueError\<close>.\<close>

definition assign_user :: "uid option \<Rightarrow> py_error + uid" where
  "assign_user u = (case u of None \<Rightarrow> Inl ValueError | Some uid \<Rightarrow> Inr uid)"

text \<open>The \<open>permission_classes\<close> of the two views (lines 15 and 26).\<close>

definition benefactor_registration_permissions :: "permission list" where
  "benefactor_registration_permissions = [IsAuthenticated]"

definition charity_registration_permissions :: "permission list" where
  "charity_registration_permissions = [IsAuthenticated]"

text \<open>\<open>BenefactorRegistration.post\<close> (lines 17--22).\<close>

definition benefactor_registration_post ::
  "field_validator \<Rightarrow> db \<Rightarrow> uid option \<Rightarrow> req_body \<Rightarrow> py_error + (response \<times> db)" where
  "benefactor_registration_post v d u body =
     (case v body of
        Inr f \<Rightarrow> sum_bind (sum_bind (assign_user u) (\<lambda>uid. save_benefactor d uid f))
                   (\<lambda>(b, d'). Inr (Response HTTP_201_CREATED (Data f), d'))
      | Inl errs \<Rightarrow> Inr (Response HTTP_400_BAD_REQUEST (Errors errs), d))"

text \<open>\<open>CharityRegistration.post\<close> (lines 28--33).\<close>

definition charity_registration_post ::
  "field_validator \<Rightarrow> db \<Rightarrow> uid option \<Rightarrow> req_body \<Rightarrow> py_error + (response \<times> db)" where
  "charity_registration_post v d u body =
     (case v body of
        Inr f \<Rightarrow> sum_bind (sum_bind (assign_user u) (\<lambda>uid. save_charity d uid f))
                   (\<lambda>(c, d'). Inr (Response HTTP_201_CREATED (Data f), d'))
      | Inl errs \<Rightarrow> Inr (Response HTTP_400_BAD_REQUEST (Errors errs), d))"

section \<open>Users\<close>

text \<open>\<open>user.save()\<close> for a new user: the unique \<open>username\<close> column refuses a
  name that is taken.\<close>

definition save_user :: "db \<Rightarrow> user \<Rightarrow> py_error + (uid \<times> db)" where
  "save_user d x =
     (if table_find (users d) (next_user d) (\<lambda>y. username y = username x) \<noteq> None
      then Inl IntegrityError
      else Inr (next_user d, d\<lparr>users := (users d)(next_user d \<mapsto> x), next_user := Suc (next_user d)\<rparr>))"

text \<open>\<open>UserSerializer.create\<close>: the keyword arguments of \<open>User(...)\<close> are read from
  \<open>validated_data\<close> in the order they are written, each read raising \<open>KeyError\<close>
  when the key is absent; \<open>set_password\<close> then reads the password and stores its
  hash; \<open>save\<close> inserts the row. A new \<open>User\<close> has the empty password until
  \<open>set_password\<close> runs.\<close>

definition user_serializer_create ::
  "(jval \<Rightarrow> string) \<Rightarrow> json_obj \<Rightarrow> db \<Rightarrow> py_error + (uid \<times> db)" where
  "user_serializer_create make_password vd d =
     sum_bind (getitem KeyError vd ''username'') (\<lambda>un.
     sum_bind (getitem KeyError vd ''phone'') (\<lambda>ph.
     sum_bind (getitem KeyError vd ''address'') (\<lambda>ad.
     sum_bind (getitem KeyError vd ''gender'') (\<lambda>ge.
     sum_bind (getitem KeyError vd ''age'') (\<lambda>ag.
     sum_bind (getitem KeyError vd ''description'') (\<lambda>de.
     sum_bind (getitem KeyError vd ''first_name'') (\<lambda>fn.
     sum_bind (getitem KeyError vd ''last_name'') (\<lambda>ln.
     sum_bind (getitem KeyError vd ''email'') (\<lambda>em.
       (let x = \<lparr>username = un, password = [], phone = ph, address = ad, gender = ge, age = ag,
                 description = de, first_name = fn, last_name = ln, email = em\<rparr>
        in sum_bind (getitem KeyError vd ''password'') (\<lambda>pw.
             save_user d (x\<lparr>password := make_password pw\<rparr>))))))))))))"

text \<open>The keys \<open>create\<close> reads, in the order it reads them.\<close>

definition user_create_keys :: "string list" where
  "user_create_keys = [''username'', ''phone'', ''address'', ''gender'', ''age'', ''description'',
     ''first_name'', ''last_name'', ''email'', ''password'']"

section \<open>Profiles: behaviour\<close>

lemma user_benefactor_None_no_row:
  assumes "wf_db d" and "user_benefactor d u = None" and "benefactors d j = Some y"
  shows "benefactor_user y \<noteq> u"
proof -
  have "j < next_benefactor d" using assms(1,3) by (auto simp: wf_db_def intro: keys_below_Some)
  with assms(2,3) show ?thesis by (auto simp: user_benefactor_def table_find_None_iff)
qed

lemma user_charity_None_no_row:
  assumes "wf_db d" and "user_charity d u = None" and "charities d j = Some y"
  shows "charity_user y \<noteq> u"
proof -
  have "j < next_charity d" using assms(1,3) by (auto simp: wf_db_def intro: keys_below_Some)
  with assms(2,3) show ?thesis by (auto simp: user_charity_def table_find_None_iff)
qed

lemma save_benefactor_lookup:
  assumes "wf_db d" and "save_benefactor d u f = Inr (b, d')"
  shows "b = next_benefactor d \<and> user_benefactor d' u = Some b \<and>
         benefactors d' b = Some \<lparr>benefactor_user = u, benefactor_fields = f\<rparr>"
proof -
  have none: "user_benefactor d u = None" and b: "b = next_benefactor d"
    and d': "d' = d\<lparr>benefactors := (benefactors d)(b \<mapsto> \<lparr>benefactor_user = u, benefactor_fields = f\<rparr>),
                   next_benefactor := Suc b\<rparr>"
    using assms(2) by (auto simp: save_benefactor_def split: if_splits)
  have "user_benefactor d' u = Some b"
    unfolding user_benefactor_def
  proof (rule table_find_unique)
    show "benefactors d' b = Some \<lparr>benefactor_user = u, benefactor_fields = f\<rparr>" by (simp add: d')
  next
    fix j y assume "benefactors d' j = Some y" and "benefactor_user y = u"
    then show "j = b"
      using user_benefactor_None_no_row [OF assms(1) none] by (auto simp: d' split: if_splits)
  qed (simp_all add: d')
  with b d' show ?thesis by simp
qed

lemma save_charity_lookup:
  assumes "wf_db d" and "save_charity d u f = Inr (c, d')"
  shows "c = next_charity d \<and> user_charity d' u = Some c \<and>
         charities d' c = Some \<lparr>charity_user = u, charity_fields = f\<rparr> \<and>
         benefactors d' = benefactors d \<and> next_benefactor d' = next_benefactor d"
proof -
  have none: "user_charity d u = None" and c: "c = next_charity d"
    and d': "d' = d\<lparr>charities := (charities d)(c \<mapsto> \<lparr>charity_user = u, charity_fields = f\<rparr>),
                   next_charity := Suc c\<rparr>"
    using assms(2) by (auto simp: save_charity_def split: if_splits)
  have "user_charity d' u = Some c"
    unfolding user_charity_def
  proof (rule table_find_unique)
    show "charities d' c = Some \<lparr>charity_user = u, charity_fields = f\<rparr>" by (simp add: d')
  next
    fix j y assume "charities d' j = Some y" and "charity_user y = u"
    then show "j = c"
      using user_charity_None_no_row [OF assms(1) none] by (auto simp: d' split: if_splits)
  qed (simp_all add: d')
  with c d' show ?thesis by simp
qed

lemma save_benefactor_wf:
  assumes "wf_db d" and "u \<in> dom (users d)" and "save_benefactor d u f = Inr (b, d')"
  shows "wf_db d'"
proof -
  have none: "user_benefactor d u = None"
    and d': "d' = d\<lparr>benefactors := (benefactors d)(next_benefactor d \<mapsto>
                    \<lparr>benefactor_user = u, benefactor_fields = f\<rparr>), next_benefactor := Suc (next_benefactor d)\<rparr>"
    using assms(3) by (auto simp: save_benefactor_def split: if_splits)
  have tasks_ok: "wf_task d' x" if "wf_task d x" for x
    using that by (rule wf_task_mono) (auto simp: d')
  have fresh: "benefactors d (next_benefactor d) = None"
    using assms(1) by (simp add: wf_db_def)
  have "one_per_user (benefactors d') benefactor_user"
    using assms(1) user_benefactor_None_no_row [OF assms(1) none]
    by (auto simp: d' wf_db_def one_per_user_def)
  with assms(1,2) tasks_ok show ?thesis
    by (auto simp: d' wf_db_def)
qed

lemma save_charity_wf:
  assumes "wf_db d" and "u \<in> dom (users d)" and "save_charity d u f = Inr (c, d')"
  shows "wf_db d'"
proof -
  have none: "user_charity d u = None"
    and d': "d' = d\<lparr>charities := (charities d)(next_charity d \<mapsto>
                    \<lparr>charity_user = u, charity_fields = f\<rparr>), next_charity := Suc (next_charity d)\<rparr>"
    using assms(3) by (auto simp: save_charity_def split: if_splits)
  have tasks_ok: "wf_task d' x" if "wf_task d x" for x
    using that by (rule wf_task_mono) (auto simp: d')
  have "one_per_user (charities d') charity_user"
    using assms(1) user_charity_None_no_row [OF assms(1) none]
    by (auto simp: d' wf_db_def one_per_user_def)
  with assms(1,2) tasks_ok show ?thesis
    by (auto simp: d' wf_db_def)
qed

lemma benefactor_registration_keeps_wf:
  assumes "wf_db d" and "set_option u \<subseteq> dom (users d)"
    and "benefactor_registration_post v d u body = Inr (r, d')"
  shows "wf_db d'"
proof (cases "v body")
  case (Inr f)
  with assms(3) obtain uid b where "u = Some uid" and s: "save_benefactor d uid f = Inr (b, d')"
    by (auto simp: benefactor_registration_post_def assign_user_def sum_bind_eq_Inr split: option.splits)
  with assms(2) have "uid \<in> dom (users d)" by auto
  from save_benefactor_wf [OF assms(1) this s] show ?thesis .
qed (use assms in \<open>simp add: benefactor_registration_post_def\<close>)

lemma charity_registration_keeps_wf:
  assumes "wf_db d" and "set_option u \<subseteq> dom (users d)"
    and "charity_registration_post v d u body = Inr (r, d')"
  shows "wf_db d'"
proof (cases "v body")
  case (Inr f)
  with assms(3) obtain uid c where "u = Some uid" and s: "save_charity d uid f = Inr (c, d')"
    by (auto simp: charity_registration_post_def assign_user_def sum_bind_eq_Inr split: option.splits)
  with assms(2) have "uid \<in> dom (users d)" by auto
  from save_charity_wf [OF assms(1) this s] show ?thesis .
qed (use assms in \<open>simp add: charity_registration_post_def\<close>)

text \<open>C17: a user without a benefactor profile who posts a body the serializer accepts
  gets 201; the new row is stored under the next primary key with the caller as its
  user, and from then on \<open>request.user.benefactor\<close> is that row.\<close>

theorem benefactor_registration_first:
  assumes "wf_db d" and "user_benefactor d u = None" and "v body = Inr f"
  shows "\<exists>d'. benefactor_registration_post v d (Some u) body = Inr (Response HTTP_201_CREATED (Data f), d') \<and>
             user_benefactor d' u = Some (next_benefactor d) \<and>
             benefactors d' (next_benefactor d) = Some \<lparr>benefactor_user = u, benefactor_fields = f\<rparr>"
proof -
  obtain b d' where s: "save_benefactor d u f = Inr (b, d')"
    using assms(2) by (simp add: save_benefactor_def)
  from save_benefactor_lookup [OF assms(1) s] s assms(3) show ?thesis
    by (auto simp: benefactor_registration_post_def assign_user_def)
qed

text \<open>C18: a user who already has a benefactor profile and registers again with a
  valid body is not answered 400: the insert violates the one-to-one \<open>user\<close> column
  and the view raises, which the framework answers with 500.\<close>

theorem benefactor_registration_twice:
  assumes "user_benefactor d u = Some b" and "v body = Inr f"
  shows "benefactor_registration_post v d (Some u) body = Inl IntegrityError"
  using assms by (simp add: benefactor_registration_post_def assign_user_def save_benefactor_def)

section \<open>Users: behaviour\<close>

lemma user_create_keeps_wf:
  assumes "wf_db d" and "user_serializer_create h vd d = Inr (i, d')"
  shows "wf_db d'"
proof -
  obtain x where d': "d' = d\<lparr>users := (users d)(next_user d \<mapsto> x), next_user := Suc (next_user d)\<rparr>"
    using assms(2)
    by (auto simp: user_serializer_create_def getitem_def save_user_def Let_def sum_bind_eq_Inr
        split: option.splits if_splits)
  have "wf_task d' y = wf_task d y" for y by (simp add: d' wf_task_def split: option.splits)
  with assms(1) show ?thesis by (auto simp: d' wf_db_def)
qed

text \<open>C19: \<open>create\<close> raises \<open>KeyError(k)\<close> exactly when \<open>k\<close> is the first key, in
  the order the code reads them, that the validated data lacks.\<close>

theorem user_create_KeyError:
  "user_serializer_create h vd d = Inl (KeyError k) \<longleftrightarrow>
     find (\<lambda>k. vd k = None) user_create_keys = Some k"
  by (auto simp: user_serializer_create_def user_create_keys_def getitem_def save_user_def Let_def
      split: option.splits if_splits)

text \<open>C20: when \<open>create\<close> succeeds it inserts exactly one row, under the next
  primary key, whose fields are the validated values and whose password is the hash of
  the validated password; no other row changes.\<close>

theorem user_create_roundtrip:
  assumes "user_serializer_create h vd d = Inr (i, d')"
  shows "i = next_user d \<and> next_user d' = Suc i \<and> (\<forall>j. j \<noteq> i \<longrightarrow> users d' j = users d j) \<and>
    map_option username (users d' i) = vd ''username'' \<and>
    map_option phone (users d' i) = vd ''phone'' \<and>
    map_option address (users d' i) = vd ''address'' \<and>
    map_option gender (users d' i) = vd ''gender'' \<and>
    map_option age (users d' i) = vd ''age'' \<and>
    map_option description (users d' i) = vd ''description'' \<and>
    map_option first_name (users d' i) = vd ''first_name'' \<and>
    map_option last_name (users d' i) = vd ''last_name'' \<and>
    map_option email (users d' i) = vd ''email'' \<and>
    map_option password (users d' i) = map_option h (vd ''password'')"
  using assms
  by (auto simp: user_serializer_create_def getitem_def save_user_def Let_def sum_bind_eq_Inr
      split: option.splits if_splits)

text \<open>C21: the views do not stop one user from holding both profiles: a user who
  has a benefactor profile and no charity registers a charity with a body the serializer
  accepts, gets 201, and from then on is both \<open>request.user.benefactor\<close> (the same
  row as before) and \<open>request.user.charity\<close> (the new row).\<close>

theorem registration_dual_profile:
  assumes "wf_db d" and "user_benefactor d u = Some b" and "user_charity d u = None"
    and "v body = Inr f"
  shows "\<exists>d'. charity_registration_post v d (Some u) body =
            Inr (Response HTTP_201_CREATED (Data f), d') \<and>
          user_benefactor d' u = Some b \<and> user_charity d' u = Some (next_charity d)"
proof -
  obtain c d' where s: "save_charity d u f = Inr (c, d')"
    using assms(3) by (simp add: save_charity_def)
  have "user_benefactor d' u = user_benefactor d u"
    using save_charity_lookup [OF assms(1) s] by (simp add: user_benefactor_def)
  with save_charity_lookup [OF assms(1) s] s assms(2,4) show ?thesis
    by (auto simp: charity_registration_post_def assign_user_def)
qed

section \<open>Witnesses\<close>

theorem benefactor_registration_first_witness:
  "wf_db demo_db \<and> user_benefactor demo_db 0 = None \<and>
   (\<exists>d'. benefactor_registration_post (\<lambda>data. Inr Map.empty) demo_db (Some 0) (ReqObject Map.empty) =
          Inr (Response HTTP_201_CREATED (Data Map.empty), d') \<and>
        user_benefactor d' 0 = Some 2 \<and>
        benefactors d' 2 = Some \<lparr>benefactor_user = 0, benefactor_fields = Map.empty\<rparr>)"
proof -
  have h: "user_benefactor demo_db 0 = None" by (simp add: demo_simps)
  have n: "next_benefactor demo_db = 2" by (simp add: demo_db_def)
  show ?thesis
    using benefactor_registration_first [OF demo_db_wf h, of "\<lambda>data. Inr Map.empty" "ReqObject Map.empty" Map.empty]
      demo_db_wf h n by simp
qed

theorem benefactor_registration_twice_witness:
  "user_benefactor demo_db 1 = Some 0 \<and>
   benefactor_registration_post (\<lambda>data. Inr Map.empty) demo_db (Some 1) (ReqObject Map.empty) = Inl IntegrityError"
proof -
  have h: "user_benefactor demo_db 1 = Some 0" by (simp add: demo_simps)
  show ?thesis
    using benefactor_registration_twice [OF h, of "\<lambda>data. Inr Map.empty" "ReqObject Map.empty" Map.empty] h
    by simp
qed

theorem registration_dual_profile_witness:
  "wf_db demo_db \<and> user_benefactor demo_db 1 = Some 0 \<and> user_charity demo_db 1 = None \<and>
   (\<exists>d'. charity_registration_post (\<lambda>data. Inr Map.empty) demo_db (Some 1) (ReqObject Map.empty) =
          Inr (Response HTTP_201_CREATED (Data Map.empty), d') \<and>
        user_benefactor d' 1 = Some 0 \<and> user_charity d' 1 = Some 2)"
proof -
  have h: "user_benefactor demo_db 1 = Some 0" "user_charity demo_db 1 = None"
    by (simp_all add: demo_simps)
  have n: "next_charity demo_db = 2" by (simp add: demo_db_def)
  show ?thesis
    using registration_dual_profile [OF demo_db_wf h, of "\<lambda>data. Inr Map.empty" "ReqObject Map.empty" Map.empty]
      demo_db_wf h n by simp
qed

theorem user_create_roundtrip_witness:
  "user_serializer_create (\<lambda>p. ''hash'') (\<lambda>k. Some (JStr k)) empty_db =
     Inr (0, empty_db\<lparr>users := [0 \<mapsto> \<lparr>username = JStr ''username'', password = ''hash'',
        phone = JStr ''phone'', address = JStr ''address'', gender = JStr ''gender'',
        age = JStr ''age'', description = JStr ''description'', first_name = JStr ''first_name'',
        last_name = JStr ''last_name'', email = JStr ''email''\<rparr>], next_user := 1\<rparr>) \<and>
   map_option password (users (empty_db\<lparr>users := [0 \<mapsto> \<lparr>username = JStr ''username'',
        password = ''hash'', phone = JStr ''phone'', address = JStr ''address'',
        gender = JStr ''gender'', age = JStr ''age'', description = JStr ''description'',
        first_name = JStr ''first_name'', last_name = JStr ''last_name'',
        email = JStr ''email''\<rparr>], next_user := 1\<rparr>) 0) = Some ''hash''"
proof -
  have h: "user_serializer_create (\<lambda>p. ''hash'') (\<lambda>k. Some (JStr k)) empty_db =
     Inr (0, empty_db\<lparr>users := [0 \<mapsto> \<lparr>username = JStr ''username'', password = ''hash'',
        phone = JStr ''phone'', address = JStr ''address'', gender = JStr ''gender'',
        age = JStr ''age'', description = JStr ''description'', first_name = JStr ''first_name'',
        last_name = JStr ''last_name'', email = JStr ''email''\<rparr>], next_user := 1\<rparr>)"
    by (simp add: user_serializer_create_def save_user_def empty_db_def table_find_def)
  show ?thesis using user_create_roundtrip [OF h] h by simp
qed

end
