(* ===== verification/Api.thy ===== *)
theory Api
  imports Lifecycle TaskList Registration
begin

text \<open>
  The endpoints of specification section 6 and the request pipeline of Django REST
  framework around the views: the caller is authenticated, the view's permission classes
  are checked in order, the view runs with \<open>request.user\<close> (the anonymous user when
  authentication fails), and an exception that escapes it becomes a 500 answer with the
  database unchanged (every view of the sources raises before its first write). The
  routing table (\<open>urls.py\<close>) is not among the sources; the endpoints are those the
  specification lists. The parts of the program that live outside the sources (the
  profile and task serializers' field validation, the task manager and lookup tables,
  the password hasher, whether the authentication classes send a
  \<open>WWW-Authenticate\<close> header) are the fields of a \<open>config\<close>.
\<close>

section \<open>Endpoints and the pipeline\<close>

datatype endpoint =
    PostBenefactors | PostCharities | GetTasks | PostTasks
  | GetTaskRequest tid | PostTaskResponse tid | PostTaskDone tid

record config =
  benefactor_validator :: field_validator
  charity_validator :: field_validator
  task_validator :: field_validator
  lookups :: task_lookups
  hasher :: "jval \<Rightarrow> string"
  www_authenticate :: bool

text \<open>A request's user is authenticated when it names a stored user; any other request
  is anonymous.\<close>

definition authenticate :: "db \<Rightarrow> request \<Rightarrow> uid option" where
  "authenticate d req =
     (case req_user req of
        Some u \<Rightarrow> if users d u \<noteq> None then Some u else None
      | None \<Rightarrow> None)"

fun endpoint_permissions :: "endpoint \<Rightarrow> http_method \<Rightarrow> permission list" where
  "endpoint_permissions PostBenefactors m = benefactor_registration_permissions"
| "endpoint_permissions PostCharities m = charity_registration_permissions"
| "endpoint_permissions GetTasks m = tasks_get_permissions m"
| "endpoint_permissions PostTasks m = tasks_get_permissions m"
| "endpoint_permissions (GetTaskRequest t) m = task_request_permissions"
| "endpoint_permissions (PostTaskResponse t) m = task_response_permissions"
| "endpoint_permissions (PostTaskDone t) m = done_task_permissions"

fun run_view :: "config \<Rightarrow> db \<Rightarrow> uid option \<Rightarrow> request \<Rightarrow> endpoint \<Rightarrow> py_error + (response \<times> db)" where
  "run_view cfg d u req PostBenefactors =
     benefactor_registration_post (benefactor_validator cfg) d u (req_data req)"
| "run_view cfg d u req PostCharities =
     charity_registration_post (charity_validator cfg) d u (req_data req)"
| "run_view cfg d u req GetTasks = Inr (tasks_list (lookups cfg) d u (req_query req), d)"
| "run_view cfg d u req PostTasks = tasks_post (task_validator cfg) d u (req_data req)"
| "run_view cfg d u req (GetTaskRequest t) = task_request_get d u t"
| "run_view cfg d u req (PostTaskResponse t) = task_response_post d t (req_data req)"
| "run_view cfg d u req (PostTaskDone t) = Inr (done_task_post d t)"

text \<open>\<open>APIView.dispatch\<close>: authentication, \<open>check_permissions\<close>, the handler, and the
  500 answer to an escaping exception.\<close>

definition api_step :: "config \<Rightarrow> db \<Rightarrow> request \<Rightarrow> endpoint \<Rightarrow> response \<times> db" where
  "api_step cfg d req e =
     (let u = authenticate d req in
      case check_permissions (www_authenticate cfg) d u (endpoint_permissions e (req_method req)) of
        Some r \<Rightarrow> (r, d)
      | None \<Rightarrow>
          (case run_view cfg d u req e of
             Inl _ \<Rightarrow> (server_error, d)
           | Inr (r, d') \<Rightarrow> (r, d')))"

section \<open>Runs of the whole backend\<close>

text \<open>An action is a sign-up (\<open>UserSerializer.create\<close> with validated data; the
  sign-up view is not among the sources) or a request to an endpoint.\<close>

datatype action = SignUp json_obj | Call request endpoint

fun act :: "config \<Rightarrow> db \<Rightarrow> action \<Rightarrow> response option \<times> db" where
  "act cfg d (SignUp vd) =
     (case user_serializer_create (hasher cfg) vd d of
        Inl _ \<Rightarrow> (None, d)
      | Inr (_, d') \<Rightarrow> (None, d'))"
| "act cfg d (Call req e) = (let (r, d') = api_step cfg d req e in (Some r, d'))"

fun run_actions :: "config \<Rightarrow> db \<Rightarrow> action list \<Rightarrow> response option list \<times> db" where
  "run_actions cfg d [] = ([], d)"
| "run_actions cfg d (a # as) =
     (let (r, d') = act cfg d a; (rs, d'') = run_actions cfg d' as in (r # rs, d''))"

text \<open>A configuration for the examples: serializers that accept every mapping (the task
  serializer keeps the body's fields but the charity key) and refuse any other body, the
  example lookups, a constant hasher, token authentication.\<close>

definition demo_cfg :: config where
  "demo_cfg = \<lparr>benefactor_validator = (\<lambda>b. case b of ReqObject data \<Rightarrow> Inr Map.empty
       | ReqOther ty \<Rightarrow> Inl [(''non_field_errors'', ''Invalid data.'')]),
     charity_validator = (\<lambda>b. case b of ReqObject data \<Rightarrow> Inr Map.empty
       | ReqOther ty \<Rightarrow> Inl [(''non_field_errors'', ''Invalid data.'')]),
     task_validator = (\<lambda>b. case b of ReqObject data \<Rightarrow> Inr (data(''charity_id'' := None))
       | ReqOther ty \<Rightarrow> Inl [(''non_field_errors'', ''Invalid data.'')]),
     lookups = demo_lookups, hasher = (\<lambda>p. ''pbkdf2_sha256$''), www_authenticate = True\<rparr>"

definition signup_data :: "string \<Rightarrow> json_obj" where
  "signup_data n = (\<lambda>k. Some (JStr k))(''username'' \<mapsto> JStr n)"

definition call :: "uid \<Rightarrow> http_method \<Rightarrow> json_obj \<Rightarrow> endpoint \<Rightarrow> action" where
  "call u m body e = Call \<lparr>req_user = Some u, req_method = m, req_data = ReqObject body,
     req_query = Map.empty\<rparr> e"

definition user_request :: "uid option \<Rightarrow> http_method \<Rightarrow> json_obj \<Rightarrow> request" where
  "user_request u m body = \<lparr>req_user = u, req_method = m, req_data = ReqObject body,
     req_query = Map.empty\<rparr>"

section \<open>Lemmas on the pipeline\<close>

lemma authenticate_users: "set_option (authenticate d req) \<subseteq> dom (users d)"
  by (auto simp: authenticate_def split: option.splits if_splits)

lemma api_step_cases:
  assumes "api_step cfg d req e = (r, d')"
  obtains (denied) "check_permissions (www_authenticate cfg) d (authenticate d req)
        (endpoint_permissions e (req_method req)) = Some r" and "d' = d"
    | (raised) err where "check_permissions (www_authenticate cfg) d (authenticate d req)
        (endpoint_permissions e (req_method req)) = None"
      and "run_view cfg d (authenticate d req) req e = Inl err" and "r = server_error" and "d' = d"
    | (ran) "check_permissions (www_authenticate cfg) d (authenticate d req)
        (endpoint_permissions e (req_method req)) = None"
      and "run_view cfg d (authenticate d req) req e = Inr (r, d')"
  using assms
  by (cases "check_permissions (www_authenticate cfg) d (authenticate d req)
        (endpoint_permissions e (req_method req))";
      cases "run_view cfg d (authenticate d req) req e")
     (auto simp: api_step_def)

lemma lc_handler_run_view:
  "run_view cfg d u req (GetTaskRequest t) = lc_handler d t (OpRequest u)"
  "run_view cfg d u req (PostTaskResponse t) = lc_handler d t (OpResponse (req_data req))"
  "run_view cfg d u req (PostTaskDone t) = lc_handler d t OpDone"
  by simp_all

lemma run_view_keeps_wf:
  assumes "wf_db d" and "set_option u \<subseteq> dom (users d)" and "run_view cfg d u req e = Inr (r, d')"
  shows "wf_db d'"
proof (cases e)
  case PostBenefactors
  with assms show ?thesis by (auto intro: benefactor_registration_keeps_wf)
next
  case PostCharities
  with assms show ?thesis by (auto intro: charity_registration_keeps_wf)
next
  case GetTasks
  with assms show ?thesis by simp
next
  case PostTasks
  with assms show ?thesis by (auto intro: tasks_post_keeps_wf)
next
  case (GetTaskRequest t)
  with assms show ?thesis by (metis lc_handler_keeps_wf lc_handler_run_view(1))
next
  case (PostTaskResponse t)
  with assms show ?thesis by (metis lc_handler_keeps_wf lc_handler_run_view(2))
next
  case (PostTaskDone t)
  with assms show ?thesis by (metis lc_handler_keeps_wf lc_handler_run_view(3))
qed

lemma api_step_keeps_wf:
  assumes "wf_db d" and "api_step cfg d req e = (r, d')"
  shows "wf_db d'"
  using assms(2)
proof (cases rule: api_step_cases)
  case ran
  from assms(1) authenticate_users ran(2) show ?thesis by (rule run_view_keeps_wf)
qed (use assms(1) in simp_all)

lemma act_keeps_wf:
  assumes "wf_db d"
  shows "wf_db (snd (act cfg d a))"
proof (cases a)
  case (SignUp vd)
  with assms show ?thesis by (auto intro: user_create_keeps_wf split: sum.splits)
next
  case (Call req e)
  with assms show ?thesis by (auto intro: api_step_keeps_wf split: prod.splits)
qed

section \<open>Properties of the pipeline\<close>

lemma permission_denied_status:
  "resp_status (permission_denied w u) \<in> {HTTP_401_UNAUTHORIZED, HTTP_403_FORBIDDEN}"
  by (cases u) (simp_all add: permission_denied_def)

text \<open>C22: \<open>TaskResponse\<close> and \<open>DoneTask\<close> never compare the task's charity with the
  caller's: any two charity owners sending the same body to the same task get the same
  answer and leave the same database, so one charity can accept, reject or finish the
  tasks of another.\<close>

theorem transition_ignores_charity:
  assumes "authenticate d req1 = Some u1" and "authenticate d req2 = Some u2"
    and "user_charity d u1 \<noteq> None" and "user_charity d u2 \<noteq> None"
    and "req_data req1 = req_data req2"
    and "e = PostTaskResponse t \<or> e = PostTaskDone t"
  shows "api_step cfg d req1 e = api_step cfg d req2 e"
  using assms
  by (auto simp: api_step_def task_response_permissions_def done_task_permissions_def)

text \<open>C23: the permission classes refuse before any view runs and change nothing.
  An anonymous request, to any endpoint, is refused with \<open>NotAuthenticated\<close>: 401
  when the authentication classes send a \<open>WWW-Authenticate\<close> header and 403
  otherwise; an authenticated caller without a benefactor profile who asks for a task is
  refused with \<open>PermissionDenied\<close> (403).\<close>

theorem permission_refusals:
  "(authenticate d req = None \<longrightarrow>
      api_step cfg d req e =
        (Response (if www_authenticate cfg then HTTP_401_UNAUTHORIZED else HTTP_403_FORBIDDEN)
           (Detail ''Authentication credentials were not provided.''), d)) \<and>
   (authenticate d req = Some u \<and> user_benefactor d u = None \<longrightarrow>
      api_step cfg d req (GetTaskRequest t) =
        (Response HTTP_403_FORBIDDEN (Detail ''You do not have permission to perform this action.''), d))"
  by (cases e)
     (simp_all add: api_step_def permission_denied_def tasks_get_permissions_def
        benefactor_registration_permissions_def charity_registration_permissions_def
        task_request_permissions_def task_response_permissions_def done_task_permissions_def)

text \<open>C16: every view, run for an existing caller or the anonymous user, keeps the
  database well formed: registering a profile, creating a task and the three
  transitions.\<close>

theorem views_keep_wf:
  assumes "wf_db d" and "set_option u \<subseteq> dom (users d)" and "run_view cfg d u req e = Inr (r, d')"
  shows "wf_db d'"
  using assms by (rule run_view_keeps_wf)

section \<open>Witnesses\<close>

theorem transition_ignores_charity_witness:
  "authenticate demo_db (user_request (Some 3) POST Map.empty) = Some 3 \<and>
   authenticate demo_db (user_request (Some 0) POST Map.empty) = Some 0 \<and>
   user_charity demo_db 3 = Some 1 \<and> user_charity demo_db 0 = Some 0 \<and>
   tasks demo_db 2 = Some (demo_task ASSIGNED (Some 1)) \<and> task_charity (demo_task ASSIGNED (Some 1)) = 0 \<and>
   api_step demo_cfg demo_db (user_request (Some 3) POST Map.empty) (PostTaskDone 2) =
   api_step demo_cfg demo_db (user_request (Some 0) POST Map.empty) (PostTaskDone 2)"
proof -
  have h: "authenticate demo_db (user_request (Some 3) POST Map.empty) = Some 3"
    "authenticate demo_db (user_request (Some 0) POST Map.empty) = Some 0"
    "user_charity demo_db 3 = Some 1" "user_charity demo_db 0 = Some 0"
    "tasks demo_db 2 = Some (demo_task ASSIGNED (Some 1))"
    by (simp_all add: authenticate_def user_request_def demo_simps)
  have "req_data (user_request (Some 3) POST Map.empty) = req_data (user_request (Some 0) POST Map.empty)"
    by (simp add: user_request_def)
  with transition_ignores_charity [OF h(1,2), where cfg = demo_cfg and e = "PostTaskDone 2" and t = 2] h
  show ?thesis by (simp add: demo_task_def)
qed

theorem permission_refusals_witness:
  "authenticate demo_db (user_request (Some 9) POST Map.empty) = None \<and>
   api_step demo_cfg demo_db (user_request (Some 9) POST Map.empty) PostTasks =
     (Response HTTP_401_UNAUTHORIZED (Detail ''Authentication credentials were not provided.''), demo_db) \<and>
   authenticate demo_db (user_request (Some 0) GET Map.empty) = Some 0 \<and>
   user_benefactor demo_db 0 = None \<and>
   api_step demo_cfg demo_db (user_request (Some 0) GET Map.empty) (GetTaskRequest 0) =
     (Response HTTP_403_FORBIDDEN (Detail ''You do not have permission to perform this action.''), demo_db)"
proof -
  have h: "authenticate demo_db (user_request (Some 9) POST Map.empty) = None"
    "authenticate demo_db (user_request (Some 0) GET Map.empty) = Some 0"
    "user_benefactor demo_db 0 = None"
    by (simp_all add: authenticate_def user_request_def demo_simps)
  show ?thesis
    using permission_refusals [of demo_db "user_request (Some 9) POST Map.empty" demo_cfg PostTasks]
      permission_refusals [of demo_db "user_request (Some 0) GET Map.empty" demo_cfg _ 0 0] h
    by (simp add: demo_cfg_def)
qed

theorem views_keep_wf_witness:
  "wf_db demo_db \<and> set_option (Some 0) \<subseteq> dom (users demo_db) \<and>
   run_view demo_cfg demo_db (Some 0) (user_request (Some 0) POST Map.empty) PostTasks =
     Inr (Response HTTP_201_CREATED (Data [''charity_id'' \<mapsto> JInt 0]),
          snd (create_task demo_db (demo_task PENDING None))) \<and>
   wf_db (snd (create_task demo_db (demo_task PENDING None)))"
proof -
  have u: "set_option (Some 0) \<subseteq> dom (users demo_db)" by (simp add: demo_db_def)
  have h: "run_view demo_cfg demo_db (Some 0) (user_request (Some 0) POST Map.empty) PostTasks =
     Inr (Response HTTP_201_CREATED (Data [''charity_id'' \<mapsto> JInt 0]),
          snd (create_task demo_db (demo_task PENDING None)))"
    by (simp add: user_request_def demo_cfg_def tasks_post_def task_serializer_is_valid_def
        demo_simps demo_task_def task_data_def create_task_def)
  show ?thesis using views_keep_wf [OF demo_db_wf u h] demo_db_wf u h by simp
qed

end
