(* ===== verification/Statuses.thy ===== *)
theory Statuses
  imports Api
begin

text \<open>
  The answers of the endpoints against the interface of specification section 6:
  each endpoint's route carries one method, and the statuses the specification lists
  for it, with the 401 and 403 of the permission checks (section 7), are all it
  answers, but for the 500 of an exception that escapes a view: a second profile
  registration, and a request body that is not a JSON object on the two views that
  read it as a dictionary.
\<close>

section \<open>Routes and the statuses of the specification\<close>



section \<open>Lemmas\<close>







section \<open>The statuses of the endpoints\<close>



end
