(* ===== verification/Spec2Isabelle.thy ===== *)
theory Spec2Isabelle
  imports Race Progress Statuses
begin

text \<open>
  \<^bold>\<open>A verification library for the CharityPart2 backend.\<close>

  The program is a Django REST framework backend in which users register, charities
  post tasks, benefactors request them and charities accept, reject and finish them.
  Its sources are \<open>src/charities/views.py\<close> (the views) and
  \<open>src/accounts/serializers.py\<close> (\<open>UserSerializer\<close>). The models, the permission
  classes, the other serializers, the task manager and the URL table are not among the
  sources; where the views depend on them they are modelled from the specification or
  taken as parameters, and every such definition says so.

  \<^bold>\<open>Theories.\<close>
  \<^item> \<open>Prelude\<close>: identifier types, JSON values, exceptions as sums (\<open>sum_bind\<close>,
    \<open>getitem\<close> for \<open>d[k]\<close>), the scan \<open>table_find\<close> that models a reverse
    one-to-one accessor, tables with an allocation counter.
  \<^item> \<open>Models\<close>: the rows (records \<open>task\<close>, \<open>benefactor\<close>, \<open>charity\<close>,
    \<open>user\<close>) and the database \<open>db\<close> (four maps from primary keys to rows, each with
    its counter); the HTTP vocabulary (\<open>status\<close>, \<open>response\<close>, \<open>request\<close>,
    \<open>py_error\<close>); a parsed request body \<open>req_body\<close>, a JSON object or any other
    JSON value, and \<open>data_get\<close> for \<open>request.data.get(k)\<close>, which raises
    \<open>AttributeError\<close> on a non-object; \<open>request.user\<close> as \<open>uid option\<close> (\<open>None\<close>
    for the anonymous user) with \<open>request_user_benefactor\<close> and
    \<open>request_user_charity\<close> for \<open>request.user.benefactor\<close> and
    \<open>request.user.charity\<close>; \<open>get_task_or_404\<close>, \<open>save_task\<close> (\<open>task.save()\<close>
    writes the whole row); the permission classes and \<open>check_permissions\<close>, with the
    401 or 403 of an anonymous refusal depending on the authentication classes; the
    well-formedness predicate \<open>wf_db\<close> (keys below counters, foreign keys resolve, one
    profile of each kind per user, a task has a benefactor exactly when it is not
    \<open>PENDING\<close>); an example database.
  \<^item> \<open>Lifecycle\<close>: \<open>TaskRequest.get\<close>, \<open>TaskResponse.post\<close>, \<open>DoneTask.post\<close>
    (\<open>task_request_get\<close>, \<open>task_response_post\<close>, \<open>done_task_post\<close>), each a
    function from the database to the answer and the new database with an escaping
    exception as \<open>Inl\<close>; the lifecycle table of specification section 4.1 as the
    inductive relation \<open>lc_step\<close> on (state, assigned benefactor); the behaviour of
    every branch (C1--C6), the one exception \<open>TaskResponse.post\<close> raises (C7), the
    refinement of \<open>lc_step\<close> by the views (C8), the preservation of \<open>wf_db\<close> (C9),
    and that the sequence request, accept, done (\<open>lc_run\<close>) takes any pending task to
    \<open>DONE\<close> (C25).
  \<^item> \<open>Race\<close>: the views split at their \<open>save()\<close> into a read phase and a commit,
    runs of numbered requests under a schedule of \<open>Read\<close> and \<open>Commit\<close> events
    (specification section 5: no lock, no transaction). A read followed by its commit
    is the view (\<open>lc_read_commit_split\<close>); every schedule keeps \<open>wf_db\<close> (C10);
    overlapping requests lose an assignment, on every database and for every pair of
    benefactors (C11).
  \<^item> \<open>TaskList\<close>: the \<open>Tasks\<close> view: \<open>get_permissions\<close>, \<open>get_queryset\<close> (the
    manager method \<open>all_related_tasks_to_user\<close> is a parameter), the two loops of
    \<open>filter_queryset\<close> (\<open>collect_lookups\<close>) with Django's \<open>filter\<close>/\<open>exclude\<close>,
    and \<open>post\<close>; the dictionary the loops build (C12), the meaning of the filtered
    list (C13), task creation (C14, C15).
  \<^item> \<open>Registration\<close>: \<open>BenefactorRegistration.post\<close>, \<open>CharityRegistration.post\<close>
    and \<open>UserSerializer.create\<close>; profile insert and lookup (C17), a second profile
    (C18), the \<open>KeyError\<close>s of \<open>create\<close> (C19), the user row it writes (C20), one
    user with both profiles (C21).
  \<^item> \<open>Api\<close>: the endpoints of specification section 6 and the pipeline around a view
    (\<open>authenticate\<close>, \<open>check_permissions\<close> with each view's
    \<open>permission_classes\<close>, the view with \<open>request.user\<close>, 500 for an escaping
    exception) as \<open>api_step\<close>; runs of sign-ups and requests (\<open>run_actions\<close>);
    every view keeping \<open>wf_db\<close> (C16), no ownership check (C22), refusals (C23).
  \<^item> \<open>Progress\<close>: the order \<open>PENDING < WAITING < ASSIGNED < DONE\<close> on
    \<open>task_status\<close> (a \<open>linorder\<close> instance through \<open>status_rank\<close>); without
    rejections a task answers 200 at most three times (C26); a request and a rejection
    restore the database exactly, so with rejections nothing bounds the transitions
    (C27).
  \<^item> \<open>Statuses\<close>: the method of each route (\<open>endpoint_method\<close>) and the statuses
    specification section 6 lists for each endpoint (\<open>spec_statuses\<close>); a request
    sent with its route's method gets one of them, a 401 or 403, or a 500, and the 500
    only on the profile registration endpoints or on a body that is not a JSON object
    (C28).
  \<^item> \<open>Spec2Isabelle\<close> (this theory): the reachable databases of the whole backend
    from the empty one and the invariant \<open>wf_db\<close> on all of them (C24).

  \<^bold>\<open>How the model corresponds to the code.\<close> A view is a function of the database,
  \<open>request.user\<close> and the request's data; its guards are the \<open>if\<close>s of the source
  in their order, its early returns are answers with the database unchanged, its
  \<open>save()\<close> is \<open>save_task\<close> or an insert under the table's counter. Python's
  exceptions (\<open>RelatedObjectDoesNotExist\<close>, \<open>AttributeError\<close>, \<open>TypeError\<close>,
  \<open>ValueError\<close>, \<open>KeyError\<close>, \<open>IntegrityError\<close>) are the constructors of
  \<open>py_error\<close>, raised in the order the source evaluates. Queries that scan a table
  (\<open>user.benefactor\<close>) run over the keys below the table's counter, so every
  definition is executable and the examples evaluate by \<open>simp\<close>. No loop of the
  sources is unbounded: the two loops of \<open>filter_queryset\<close> are structural
  recursions over the lookup tables, and no fuel is needed anywhere.

  \<^bold>\<open>Findings.\<close> The views keep the lifecycle of the specification (C8) but not all
  of what it says around it: a finished task keeps its benefactor (C5), so the
  invariant that holds on every reachable database is "assigned exactly when not
  \<open>PENDING\<close>" (C24), not the intended "assigned exactly when \<open>WAITING\<close> or
  \<open>ASSIGNED\<close>"; \<open>TaskRequest\<close> checks only the task's state, so a benefactor may
  hold several tasks at once (C1); any charity owner may answer or finish any charity's
  task (C22); overlapping requests lose updates (C11); a request and a rejection can
  repeat forever, so nothing guarantees that a task is ever finished (C27); a second
  profile registration is a 500 (C18); a request body that is not a JSON object is a
  500 on \<open>POST /tasks/\<close> and \<open>POST /tasks/<id>/response/\<close> (C7, C28), where
  specification section 7 promises 400 for malformed input; \<open>TaskResponse\<close> answers
  a missing task 404 before it validates the body (C6).

  \<^bold>\<open>Not modelled.\<close> Everything the two source files only call or import:
  HTTP routing and parsing (the endpoints and their methods are taken from
  specification section 6, and a request sent with another method, which the
  framework would answer 405, is outside \<open>endpoint_method\<close>), authentication
  backends (a request names its user; whether they send a \<open>WWW-Authenticate\<close>
  header is a parameter), password hashing (a parameter), Django's ORM beyond the
  reads and writes the views make, the models, the task manager, permission classes
  and serializers other than \<open>UserSerializer\<close> (their field validation is a
  parameter; the rest is taken from the specification), and the representation of
  saved objects in responses beyond their fields. The components built on these are
  therefore only partly modelled; every line of the two source files but their
  imports and class headers is translated by a definition.

  \<^bold>\<open>Further work.\<close> The \<open>Tasks\<close> list view's serialisation of rows, which
  depends on \<open>TaskSerializer\<close>, not among the sources; the visibility rule of
  \<open>all_related_tasks_to_user\<close>, which lives in the models.
\<close>

section \<open>Reachable databases\<close>

text \<open>The databases the backend can reach from the empty one by sign-ups and requests.\<close>

inductive reachable :: "config \<Rightarrow> db \<Rightarrow> bool" for cfg where
  start: "reachable cfg empty_db"
| step: "reachable cfg d \<Longrightarrow> reachable cfg (snd (act cfg d a))"

text \<open>The scenarios of specification section 8. Users 0, 1 and 2 sign up; user 0
  registers a charity, users 1 and 2 register as benefactors 0 and 1.\<close>

definition scenario_setup :: "action list" where
  "scenario_setup =
     [SignUp (signup_data ''carol''), SignUp (signup_data ''bob''), SignUp (signup_data ''dave''),
      call 0 POST Map.empty PostCharities, call 1 POST Map.empty PostBenefactors,
      call 2 POST Map.empty PostBenefactors,
      call 0 POST [''title'' \<mapsto> JStr ''paint''] PostTasks]"

text \<open>Request, accept, finish.\<close>

definition scenario_accept :: "action list" where
  "scenario_accept = scenario_setup @
     [call 1 GET Map.empty (GetTaskRequest 0),
      call 0 POST [''response'' \<mapsto> JStr ''A''] (PostTaskResponse 0),
      call 0 POST Map.empty (PostTaskDone 0)]"

section \<open>The invariant on every reachable database\<close>

lemma wf_empty_db: "wf_db empty_db"
  by (simp add: wf_db_def empty_db_def keys_below_def one_per_user_def)

lemma snd_run_actions_Cons:
  "snd (run_actions cfg d (a # as)) = snd (run_actions cfg (snd (act cfg d a)) as)"
  by (simp split: prod.splits)

lemma reachable_run_actions:
  "reachable cfg d \<Longrightarrow> reachable cfg (snd (run_actions cfg d as))"
proof (induction as arbitrary: d)
  case Nil
  then show ?case by simp
next
  case (Cons a as)
  from Cons.prems have "reachable cfg (snd (act cfg d a))" by (rule reachable.step)
  then show ?case by (simp only: snd_run_actions_Cons Cons.IH)
qed

lemma reachable_keeps_wf: "reachable cfg d \<Longrightarrow> wf_db d"
proof (induction rule: reachable.induct)
  case start
  show ?case by (rule wf_empty_db)
next
  case (step d a)
  from step.IH show ?case by (rule act_keeps_wf)
qed

text \<open>C24: every database the backend can reach is well formed: keys below their
  counters, foreign keys resolving, at most one profile of each kind per user, and a
  task with an assigned benefactor exactly when it is not \<open>PENDING\<close>.\<close>

theorem reachable_wf:
  assumes "reachable cfg d"
  shows "wf_db d"
  using assms by (rule reachable_keeps_wf)

section \<open>Witnesses\<close>

theorem reachable_wf_witness:
  "reachable demo_cfg (snd (run_actions demo_cfg empty_db scenario_accept)) \<and>
   wf_db (snd (run_actions demo_cfg empty_db scenario_accept))"
proof -
  have r: "reachable demo_cfg (snd (run_actions demo_cfg empty_db scenario_accept))"
    by (rule reachable_run_actions [OF reachable.start])
  show ?thesis using reachable_wf [OF r] r by simp
qed

end
